theory Spec2Isabelle
  imports Main "HOL-Library.Sublist" "HOL-Library.AList"
begin

section \<open>Strings\<close>

text \<open>
  A Python \<open>str\<close> is a sequence of Unicode code points: \<open>len\<close>, slicing,
  \<open>startswith\<close> and \<open>in\<close> all count code points, and the program's literals are
  mostly Cyrillic. A character is therefore modelled by its code point, and a string by the
  list of its code points. ASCII literals are written through \<open>ascii\<close>; the others are
  spelled out as code points, with the Python escape of the literal in a comment.
\<close>

type_synonym pychar = nat
type_synonym pystr = "pychar list"

definition ascii :: "string \<Rightarrow> pystr" where
  "ascii s = map of_char s"

text \<open>\<open>s.startswith(p)\<close> and \<open>p in s\<close> on strings.\<close>

definition startswith :: "pystr \<Rightarrow> pystr \<Rightarrow> bool" where
  "startswith s p = prefix p s"

fun contains :: "pystr \<Rightarrow> pystr \<Rightarrow> bool" where
  "contains p [] = (p = [])"
| "contains p (c # cs) = (prefix p (c # cs) \<or> contains p cs)"

text \<open>\<open>s.replace(old, new)\<close> where \<open>old\<close> and \<open>new\<close> are single characters.\<close>

definition replace_char :: "pychar \<Rightarrow> pychar \<Rightarrow> pystr \<Rightarrow> pystr" where
  "replace_char old new s = map (\<lambda>c. if c = old then new else c) s"

section \<open>Formatting of integers\<close>

text \<open>
  \<open>str(n)\<close> for a natural number: its decimal digits, most significant first.
\<close>

fun decimal :: "nat \<Rightarrow> pystr" where
  "decimal n = (if n < 10 then [48 + n] else decimal (n div 10) @ [48 + n mod 10])"

declare decimal.simps [simp del]

text \<open>
  The format specification \<open>{n:,}\<close>: an optional minus sign, then the decimal digits
  with a comma before every group of three digits counted from the right.
\<close>

function group_thousands :: "pystr \<Rightarrow> pystr" where
  "group_thousands ds =
     (if length ds \<le> 3 then ds
      else group_thousands (take (length ds - 3) ds) @ [44] @ drop (length ds - 3) ds)"
  by pat_completeness auto
termination
  by (relation "measure length") auto

declare group_thousands.simps [simp del]

definition format_comma :: "int \<Rightarrow> pystr" where
  "format_comma n = (if n < 0 then [45] else []) @ group_thousands (decimal (nat \<bar>n\<bar>))"

definition py_str_int :: "int \<Rightarrow> pystr" where
  "py_str_int n = (if n < 0 then [45] else []) @ decimal (nat \<bar>n\<bar>)"

text \<open>
  \<^verbatim>\<open>def format_quantity(quantity): return f"{quantity:,}".replace(",", " ")\<close>
\<close>

definition format_quantity :: "int \<Rightarrow> pystr" where
  "format_quantity quantity = replace_char 44 32 (format_comma quantity)"

section \<open>Positions and buckets\<close>

text \<open>
  A bucket entry is the dictionary \<open>{'name': ..., 'quantity': ...}\<close>; a position is the
  same with a \<open>'ticker'\<close>. A Python \<open>dict\<close> iterates in insertion order and an
  assignment to a key already present keeps the key's place: this is an association list
  changed by \<open>AList.update\<close>.
\<close>

record holding =
  name :: pystr
  quantity :: int

record position = holding +
  ticker :: pystr

type_synonym positions = "(pystr \<times> position) list"
type_synonym bucket = "(pystr \<times> holding) list"
type_synonym buckets = "bucket \<times> bucket \<times> bucket \<times> bucket"

text \<open>The literals of the classification rule.\<close>

definition lit_OFZ :: pystr where \<comment> \<open>\<^verbatim>\<open>'\u041e\u0424\u0417'\<close>\<close>
  "lit_OFZ = [1054, 1060, 1047]"

definition lit_BO :: pystr where \<comment> \<open>\<^verbatim>\<open>'\u0411\u041e'\<close>\<close>
  "lit_BO = [1041, 1054]"

definition lit_fond :: pystr where \<comment> \<open>\<^verbatim>\<open>'\u0444\u043e\u043d\u0434'\<close>\<close>
  "lit_fond = [1092, 1086, 1085, 1076]"

text \<open>
  One iteration of the loop of \<open>categorize_assets\<close>: the \<open>if\<close>/\<open>elif\<close> chain assigns
  the entry under the ticker in one of the four dictionaries.
\<close>

definition categorize_step :: "pystr \<times> position \<Rightarrow> buckets \<Rightarrow> buckets" where
  "categorize_step p bs =
     (case (p, bs) of ((figi, data), (bonds, stocks, etfs, others)) \<Rightarrow>
        let ticker = ticker data; name = name data; quantity = quantity data in
        if startswith ticker (ascii ''RU000'') \<or> contains lit_OFZ name \<or> contains lit_BO name
        then (AList.update ticker \<lparr>name = name, quantity = quantity\<rparr> bonds, stocks, etfs, others)
        else if startswith ticker (ascii ''T'')
                \<and> (contains (ascii ''ETF'') name \<or> contains lit_fond name)
        then (bonds, stocks, AList.update ticker \<lparr>name = name, quantity = quantity\<rparr> etfs, others)
        else if length ticker \<le> 5 \<and> \<not> startswith ticker (ascii ''RU'')
        then (bonds, AList.update ticker \<lparr>name = name, quantity = quantity\<rparr> stocks, etfs, others)
        else (bonds, stocks, etfs, AList.update ticker \<lparr>name = name, quantity = quantity\<rparr> others))"

definition categorize_assets :: "positions \<Rightarrow> buckets" where
  "categorize_assets positions = fold categorize_step positions ([], [], [], [])"

section \<open>Console and log\<close>

text \<open>
  The program writes to the console with \<open>print\<close> and to the log file with
  \<open>logging.error\<close>. Both are threaded through the functions as a state: the texts
  printed so far (one per call of \<open>print\<close>) and the messages logged so far (the time
  stamp of a log line is not part of the model).
\<close>

record io =
  stdout :: "pystr list"
  log :: "pystr list"

definition print :: "pystr \<Rightarrow> io \<Rightarrow> io" where
  "print s io = io\<lparr>stdout := stdout io @ [s]\<rparr>"

definition logging_error :: "pystr \<Rightarrow> io \<Rightarrow> io" where
  "logging_error s io = io\<lparr>log := log io @ [s]\<rparr>"

text \<open>The texts of the program, as code points.\<close>

definition msg_no_broker_account :: pystr where \<comment> \<open>source line 39\<close>
  "msg_no_broker_account = [10060, 32, 1041, 1088, 1086, 1082, 1077, 1088, 1089, 1082, 1080,
       1081, 32, 1089, 1095, 1077, 1090, 32, 1085, 1077, 32, 1085, 1072, 1081, 1076, 1077,
       1085]"

definition msg_using_account :: pystr where \<comment> \<open>source line 43\<close>
  "msg_using_account = [9989, 32, 1048, 1089, 1087, 1086, 1083, 1100, 1079, 1091, 1077, 1084,
       32, 1089, 1095, 1077, 1090, 58, 32]"

definition log_instrument_error :: pystr where \<comment> \<open>source line 70\<close>
  "log_instrument_error = [1054, 1096, 1080, 1073, 1082, 1072, 32, 1087, 1088, 1080, 32, 1087,
       1086, 1083, 1091, 1095, 1077, 1085, 1080, 1080, 32, 1080, 1085, 1092, 1086, 1088, 1084,
       1072, 1094, 1080, 1080, 32, 1086, 1073, 32, 1080, 1085, 1089, 1090, 1088, 1091, 1084,
       1077, 1085, 1090, 1077, 32]"

definition lit_unknown :: pystr where \<comment> \<open>source line 74\<close>
  "lit_unknown = [1053, 1077, 1080, 1079, 1074, 1077, 1089, 1090, 1085, 1086]"

definition log_portfolio_error :: pystr where \<comment> \<open>source line 81\<close>
  "log_portfolio_error = [1054, 1096, 1080, 1073, 1082, 1072, 32, 1087, 1088, 1080, 32, 1087,
       1086, 1083, 1091, 1095, 1077, 1085, 1080, 1080, 32, 1087, 1086, 1088, 1090, 1092, 1077,
       1083, 1103, 58, 32]"

definition msg_portfolio_error :: pystr where \<comment> \<open>source line 82\<close>
  "msg_portfolio_error = [10060, 32, 1054, 1096, 1080, 1073, 1082, 1072, 32, 1087, 1088, 1080,
       32, 1087, 1086, 1083, 1091, 1095, 1077, 1085, 1080, 1080, 32, 1087, 1086, 1088, 1090,
       1092, 1077, 1083, 1103, 58, 32]"

definition msg_no_data :: pystr where \<comment> \<open>source line 112\<close>
  "msg_no_data = [10060, 32, 1053, 1077, 1090, 32, 1076, 1072, 1085, 1085, 1099, 1093, 32,
       1076, 1083, 1103, 32, 1086, 1090, 1086, 1073, 1088, 1072, 1078, 1077, 1085, 1080,
       1103]"

definition msg_title :: pystr where \<comment> \<open>source line 115\<close>
  "msg_title = [128202, 32, 1057, 1054, 1057, 1058, 1040, 1042, 32, 1055, 1054, 1056, 1058,
       1060, 1045, 1051, 1071, 32, 1063, 1045, 1056, 1045, 1047, 32, 65, 80, 73]"

definition msg_format :: pystr where \<comment> \<open>source line 117\<close>
  "msg_format = [1060, 1086, 1088, 1084, 1072, 1090, 58, 32, 36, 1090, 1080, 1082, 1077, 1090,
       59, 32, 1085, 1072, 1079, 1074, 1072, 1085, 1080, 1077, 59, 32, 1082, 1086, 1083, 1080,
       1095, 1077, 1089, 1090, 1074, 1086]"

definition hdr_bonds :: pystr where \<comment> \<open>source line 125\<close>
  "hdr_bonds = [10, 128202, 32, 1054, 1041, 1051, 1048, 1043, 1040, 1062, 1048, 1048, 58]"

definition hdr_stocks :: pystr where \<comment> \<open>source line 134\<close>
  "hdr_stocks = [10, 128200, 32, 1040, 1050, 1062, 1048, 1048, 58]"

definition hdr_etfs :: pystr where \<comment> \<open>source line 143\<close>
  "hdr_etfs = [10, 128202, 32, 69, 84, 70, 58]"

definition hdr_others :: pystr where \<comment> \<open>source line 152\<close>
  "hdr_others = [10, 128269, 32, 1055, 1056, 1054, 1063, 1048, 1045, 32, 1040, 1050, 1058,
       1048, 1042, 1067, 58]"

definition lbl_bonds :: pystr where \<comment> \<open>source line 167\<close>
  "lbl_bonds = [128202, 32, 1054, 1073, 1083, 1080, 1075, 1072, 1094, 1080, 1081, 58, 32]"

definition lbl_stocks :: pystr where \<comment> \<open>source line 168\<close>
  "lbl_stocks = [128200, 32, 1040, 1082, 1094, 1080, 1081, 58, 32]"

definition lbl_etfs :: pystr where \<comment> \<open>source line 169\<close>
  "lbl_etfs = [128202, 32, 69, 84, 70, 58, 32]"

definition lbl_others :: pystr where \<comment> \<open>source line 170\<close>
  "lbl_others = [128269, 32, 1055, 1088, 1086, 1095, 1080, 1093, 58, 32]"

definition lbl_assets :: pystr where \<comment> \<open>source line 171\<close>
  "lbl_assets = [127919, 32, 1042, 1089, 1077, 1075, 1086, 32, 1072, 1082, 1090, 1080, 1074,
       1086, 1074, 58, 32]"

definition lbl_total :: pystr where \<comment> \<open>source line 172\<close>
  "lbl_total = [127919, 32, 1054, 1073, 1097, 1077, 1077, 32, 1082, 1086, 1083, 1080, 1095,
       1077, 1089, 1090, 1074, 1086, 58, 32]"

definition msg_no_token :: pystr where \<comment> \<open>source line 177\<close>
  "msg_no_token = [10060, 32, 1053, 1077, 32, 1085, 1072, 1081, 1076, 1077, 1085, 32, 1090,
       1086, 1082, 1077, 1085, 32, 84, 73, 78, 75, 79, 70, 70, 95, 84, 79, 75, 69, 78, 32,
       1074, 32, 1087, 1077, 1088, 1077, 1084, 1077, 1085, 1085, 1099, 1093, 32, 1086, 1082,
       1088, 1091, 1078, 1077, 1085, 1080, 1103]"

definition msg_create_env :: pystr where \<comment> \<open>source line 178\<close>
  "msg_create_env = [128161, 32, 1057, 1086, 1079, 1076, 1072, 1081, 1090, 1077, 32, 1092,
       1072, 1081, 1083, 32, 46, 101, 110, 118, 32, 1089, 32, 1089, 1086, 1076, 1077, 1088,
       1078, 1080, 1084, 1099, 1084, 58]"

definition msg_env_line :: pystr where \<comment> \<open>source line 179\<close>
  "msg_env_line = [84, 73, 78, 75, 79, 70, 70, 95, 84, 79, 75, 69, 78, 61, 1074, 1072, 1096,
       95, 1090, 1086, 1082, 1077, 1085, 95, 1079, 1076, 1077, 1089, 1100]"

definition msg_start :: pystr where \<comment> \<open>source line 182\<close>
  "msg_start = [128640, 32, 1047, 1072, 1087, 1091, 1089, 1082, 32, 1072, 1085, 1072, 1083,
       1080, 1079, 1072, 32, 1089, 1086, 1089, 1090, 1072, 1074, 1072, 32, 1087, 1086, 1088,
       1090, 1092, 1077, 1083, 1103, 32, 1095, 1077, 1088, 1077, 1079, 32, 65, 80, 73, 32, 84,
       105, 110, 107, 111, 102, 102, 46, 46, 46]"

definition msg_token_found :: pystr where \<comment> \<open>source line 183\<close>
  "msg_token_found = [9989, 32, 1058, 1086, 1082, 1077, 1085, 32, 1085, 1072, 1081, 1076,
       1077, 1085, 58, 32]"

definition msg_connected :: pystr where \<comment> \<open>source line 187\<close>
  "msg_connected = [9989, 32, 1055, 1086, 1076, 1082, 1083, 1102, 1095, 1077, 1085, 1080,
       1077, 32, 1082, 32, 65, 80, 73, 32, 1091, 1089, 1087, 1077, 1096, 1085, 1086]"

definition msg_fetch_failed :: pystr where \<comment> \<open>source line 196\<close>
  "msg_fetch_failed = [10060, 32, 1053, 1077, 32, 1091, 1076, 1072, 1083, 1086, 1089, 1100,
       32, 1087, 1086, 1083, 1091, 1095, 1080, 1090, 1100, 32, 1076, 1072, 1085, 1085, 1099,
       1077, 32, 1087, 1086, 1088, 1090, 1092, 1077, 1083, 1103]"

definition log_critical :: pystr where \<comment> \<open>source line 199\<close>
  "log_critical = [1050, 1088, 1080, 1090, 1080, 1095, 1077, 1089, 1082, 1072, 1103, 32, 1086,
       1096, 1080, 1073, 1082, 1072, 58, 32]"

definition msg_critical :: pystr where \<comment> \<open>source line 200\<close>
  "msg_critical = [10060, 32, 1050, 1088, 1080, 1090, 1080, 1095, 1077, 1089, 1082, 1072,
       1103, 32, 1086, 1096, 1080, 1073, 1082, 1072, 58, 32]"

definition msg_check :: pystr where \<comment> \<open>source line 201\<close>
  "msg_check = [128161, 32, 1055, 1088, 1086, 1074, 1077, 1088, 1100, 1090, 1077, 58]"

definition msg_check_token :: pystr where \<comment> \<open>source line 202\<close>
  "msg_check_token = [32, 32, 32, 45, 32, 1055, 1088, 1072, 1074, 1080, 1083, 1100, 1085,
       1086, 1089, 1090, 1100, 32, 1090, 1086, 1082, 1077, 1085, 1072]"

definition msg_check_api :: pystr where \<comment> \<open>source line 203\<close>
  "msg_check_api = [32, 32, 32, 45, 32, 1044, 1086, 1089, 1090, 1091, 1087, 1085, 1086, 1089,
       1090, 1100, 32, 65, 80, 73, 32, 84, 105, 110, 107, 111, 102, 102]"

definition msg_check_positions :: pystr where \<comment> \<open>source line 204\<close>
  "msg_check_positions = [32, 32, 32, 45, 32, 1053, 1072, 1083, 1080, 1095, 1080, 1077, 32,
       1072, 1082, 1090, 1080, 1074, 1085, 1099, 1093, 32, 1087, 1086, 1079, 1080, 1094, 1080,
       1081, 32, 1074, 32, 1087, 1086, 1088, 1090, 1092, 1077, 1083, 1077]"

section \<open>The reporter\<close>

text \<open>
  \<open>sorted(items, key=k, reverse=True)\<close>: CPython reverses the list, sorts it stably in
  ascending order of the key, and reverses the result.
\<close>

definition sorted_reverse :: "('a \<Rightarrow> int) \<Rightarrow> 'a list \<Rightarrow> 'a list" where
  "sorted_reverse key xs = rev (sort_key key (rev xs))"

text \<open>
  \<^verbatim>\<open>f"${ticker}; {data['name']}; {format_quantity(data['quantity'])}"\<close>
\<close>

definition holding_line :: "pystr \<Rightarrow> holding \<Rightarrow> pystr" where
  "holding_line tick data =
     ascii ''$'' @ tick @ ascii ''; '' @ name data @ ascii ''; ''
       @ format_quantity (quantity data)"

text \<open>
  The source repeats one block for each of the four dictionaries; \<open>print_section\<close> is
  that block, with the header text as a parameter.
\<close>

definition print_section :: "pystr \<Rightarrow> bucket \<Rightarrow> io \<Rightarrow> io" where
  "print_section header b io0 =
     (if b = [] then io0
      else
        let io1 = print header io0;
            io2 = print (replicate 80 45) io1;
            sorted_b = sorted_reverse (\<lambda>x. quantity (snd x)) b
        in fold (\<lambda>(tick, data). print (holding_line tick data)) sorted_b io2)"

text \<open>\<open>sum(data['quantity'] for data in b.values())\<close>\<close>

definition bucket_total :: "bucket \<Rightarrow> int" where
  "bucket_total b = sum_list (map (\<lambda>data. quantity data) (map snd b))"

definition display_portfolio_composition :: "positions \<Rightarrow> io \<Rightarrow> io" where
  "display_portfolio_composition positions io0 =
     (if positions = [] then print msg_no_data io0
      else
        let io1 = print msg_title io0;
            io2 = print (replicate 80 61) io1;
            io3 = print msg_format io2;
            io4 = print (replicate 80 61) io3
        in case categorize_assets positions of (bonds, stocks, etfs, others) \<Rightarrow>
        let io5 = print_section hdr_bonds bonds io4;
            io6 = print_section hdr_stocks stocks io5;
            io7 = print_section hdr_etfs etfs io6;
            io8 = print_section hdr_others others io7;
            io9 = print ([10] @ replicate 80 61) io8;
            total_bonds = bucket_total bonds;
            total_stocks = bucket_total stocks;
            total_etfs = bucket_total etfs;
            total_others = bucket_total others;
            io10 = print (lbl_bonds @ format_quantity total_bonds) io9;
            io11 = print (lbl_stocks @ format_quantity total_stocks) io10;
            io12 = print (lbl_etfs @ format_quantity total_etfs) io11;
            io13 = print (lbl_others @ format_quantity total_others) io12;
            io14 = print (lbl_assets @ py_str_int (int (length positions))) io13
        in print (lbl_total
                    @ format_quantity (total_bonds + total_stocks + total_etfs + total_others))
             io14)"

section \<open>The fetcher\<close>

text \<open>
  The remote service is outside the program. A client is what its three calls answer: each
  either raises (\<open>Inl\<close>, with the text of the exception) or returns. The instrument
  lookup returns a response whose \<open>instrument\<close> field may be empty.
\<close>

datatype exn = Exception pystr

fun str_exn :: "exn \<Rightarrow> pystr" where
  "str_exn (Exception m) = m"

record account =
  account_id :: pystr
  account_type :: int

record quotation =
  units :: int
  nano :: int

record portfolio_position =
  figi :: pystr
  position_quantity :: quotation

record instrument =
  instrument_name :: pystr
  instrument_ticker :: pystr

record client =
  get_accounts :: "exn + account list"
  get_portfolio :: "pystr \<Rightarrow> exn + portfolio_position list"
  get_instrument_by :: "int \<Rightarrow> pystr \<Rightarrow> exn + instrument option"

text \<open>
  The body of the loop over \<open>portfolio.positions\<close>, on the dictionary \<open>positions\<close>
  and the console and log.
\<close>

definition fetch_step :: "client \<Rightarrow> portfolio_position \<Rightarrow> positions \<times> io \<Rightarrow> positions \<times> io" where
  "fetch_step client position st =
     (case st of (positions, io0) \<Rightarrow>
        if units (position_quantity position) > 0 then
          let figi = figi position;
              quantity = units (position_quantity position)
          in case get_instrument_by client 1 figi of
               Inr (Some instr) \<Rightarrow>
                 (AList.update figi
                    \<lparr>name = instrument_name instr, quantity = quantity,
                     ticker = instrument_ticker instr\<rparr> positions, io0)
             | Inr None \<Rightarrow> (positions, io0)
             | Inl e \<Rightarrow>
                 let io1 = logging_error (log_instrument_error @ figi @ ascii '': '' @ str_exn e) io0
                 in (AList.update figi
                       \<lparr>name = lit_unknown, quantity = quantity, ticker = take 8 figi\<rparr> positions,
                     io1)
        else (positions, io0))"

definition portfolio_failed :: "exn \<Rightarrow> io \<Rightarrow> positions option \<times> io" where
  "portfolio_failed e io0 =
     (let io1 = logging_error (log_portfolio_error @ str_exn e) io0;
          io2 = print (msg_portfolio_error @ str_exn e) io1
      in (None, io2))"

definition get_portfolio_composition :: "client \<Rightarrow> io \<Rightarrow> positions option \<times> io" where
  "get_portfolio_composition client io0 =
     (case get_accounts client of
        Inl e \<Rightarrow> portfolio_failed e io0
      | Inr accounts \<Rightarrow>
          (case find (\<lambda>acc. account_type acc = 1) accounts of
             None \<Rightarrow> (None, print msg_no_broker_account io0)
           | Some broker_account \<Rightarrow>
               let account_id = account_id broker_account;
                   io1 = print (msg_using_account @ account_id) io0
               in case get_portfolio client account_id of
                    Inl e \<Rightarrow> portfolio_failed e io1
                  | Inr portfolio \<Rightarrow>
                      (case fold (fetch_step client) portfolio ([], io1) of
                         (positions, io2) \<Rightarrow> (Some positions, io2))))"

section \<open>The main function\<close>

text \<open>
  \<open>TOKEN\<close> is what \<open>os.getenv\<close> returned; \<open>Client\<close> opens the session and may
  raise. \<open>not TOKEN\<close> holds for \<open>None\<close> and for the empty string, \<open>if positions\<close>
  fails for \<open>None\<close> and for the empty dictionary.
\<close>

definition no_token :: "io \<Rightarrow> io" where
  "no_token io0 = print msg_env_line (print msg_create_env (print msg_no_token io0))"

definition critical :: "exn \<Rightarrow> io \<Rightarrow> io" where
  "critical e io0 =
     (let io1 = logging_error (log_critical @ str_exn e) io0;
          io2 = print (msg_critical @ str_exn e) io1;
          io3 = print msg_check io2;
          io4 = print msg_check_token io3;
          io5 = print msg_check_api io4
      in print msg_check_positions io5)"

definition main :: "pystr option \<Rightarrow> (pystr \<Rightarrow> exn + client) \<Rightarrow> io \<Rightarrow> io" where
  "main TOKEN Client io0 =
     (case TOKEN of
        None \<Rightarrow> no_token io0
      | Some token \<Rightarrow>
          if token = [] then no_token io0
          else
            let io1 = print msg_start io0;
                io2 = print (msg_token_found @ take 10 token @ ascii ''...'') io1
            in case Client token of
                 Inl e \<Rightarrow> critical e io2
               | Inr client \<Rightarrow>
                   let io3 = print msg_connected io2
                   in case get_portfolio_composition client io3 of
                        (Some positions, io4) \<Rightarrow>
                          if positions \<noteq> [] then display_portfolio_composition positions io4
                          else print msg_fetch_failed io4
                      | (None, io4) \<Rightarrow> print msg_fetch_failed io4)"

section \<open>Notions used to state the properties\<close>

text \<open>
  The four dictionaries returned by \<open>categorize_assets\<close>, by name, and the
  classification rule on its own: the bucket that the \<open>if\<close>/\<open>elif\<close> chain selects
  for a ticker and a name.
\<close>

datatype asset_class = Bonds | Stocks | Etfs | Others

definition asset_class :: "pystr \<Rightarrow> pystr \<Rightarrow> asset_class" where
  "asset_class t n =
     (if startswith t (ascii ''RU000'') \<or> contains lit_OFZ n \<or> contains lit_BO n then Bonds
      else if startswith t (ascii ''T'') \<and> (contains (ascii ''ETF'') n \<or> contains lit_fond n)
      then Etfs
      else if length t \<le> 5 \<and> \<not> startswith t (ascii ''RU'') then Stocks
      else Others)"

fun bucket_of :: "asset_class \<Rightarrow> buckets \<Rightarrow> bucket" where
  "bucket_of Bonds (bonds, stocks, etfs, others) = bonds"
| "bucket_of Stocks (bonds, stocks, etfs, others) = stocks"
| "bucket_of Etfs (bonds, stocks, etfs, others) = etfs"
| "bucket_of Others (bonds, stocks, etfs, others) = others"

text \<open>
  The entry that a position writes into its bucket, the bucket of a position, and the
  entries written into one bucket, in the order of the iteration.
\<close>

definition entry :: "pystr \<times> position \<Rightarrow> pystr \<times> holding" where
  "entry p = (ticker (snd p), \<lparr>name = name (snd p), quantity = quantity (snd p)\<rparr>)"

definition class_of :: "pystr \<times> position \<Rightarrow> asset_class" where
  "class_of p = asset_class (ticker (snd p)) (name (snd p))"

definition entries :: "asset_class \<Rightarrow> positions \<Rightarrow> bucket" where
  "entries b ps = map entry (filter (\<lambda>p. class_of p = b) ps)"

definition assign :: "pystr \<times> holding \<Rightarrow> bucket \<Rightarrow> bucket" where
  "assign e al = AList.update (fst e) (snd e) al"

text \<open>Of the entries written under one key, the one written last.\<close>

fun last_wins :: "('k \<times> 'v) list \<Rightarrow> ('k \<times> 'v) list" where
  "last_wins [] = []"
| "last_wins (e # es) = (if fst e \<in> fst ` set es then last_wins es else e # last_wins es)"

text \<open>The keys of a list in the order in which each occurs first.\<close>

fun first_seen :: "'k list \<Rightarrow> 'k list" where
  "first_seen [] = []"
| "first_seen (k # ks) = k # removeAll k (first_seen ks)"

text \<open>The number that a sequence of decimal digits denotes.\<close>

definition digits_value :: "pystr \<Rightarrow> nat" where
  "digits_value ds = foldl (\<lambda>a c. 10 * a + (c - 48)) 0 ds"

text \<open>The buckets in which the entry of a position is found.\<close>

definition buckets_holding :: "pystr \<times> position \<Rightarrow> buckets \<Rightarrow> asset_class list" where
  "buckets_holding p bs = filter (\<lambda>b. entry p \<in> set (bucket_of b bs)) [Bonds, Stocks, Etfs, Others]"

text \<open>
  The lines of the report: the rows of a bucket in the order in which they are printed,
  the lines of one section, the six lines of totals, and the whole report.
\<close>

definition rows :: "bucket \<Rightarrow> bucket" where
  "rows b = sorted_reverse (\<lambda>x. quantity (snd x)) b"

definition section_lines :: "pystr \<Rightarrow> bucket \<Rightarrow> pystr list" where
  "section_lines header b =
     (if b = [] then []
      else [header, replicate 80 45] @ map (\<lambda>(tick, data). holding_line tick data) (rows b))"

definition totals_lines :: "positions \<Rightarrow> buckets \<Rightarrow> pystr list" where
  "totals_lines ps bs =
     [lbl_bonds @ format_quantity (bucket_total (bucket_of Bonds bs)),
      lbl_stocks @ format_quantity (bucket_total (bucket_of Stocks bs)),
      lbl_etfs @ format_quantity (bucket_total (bucket_of Etfs bs)),
      lbl_others @ format_quantity (bucket_total (bucket_of Others bs)),
      lbl_assets @ py_str_int (int (length ps)),
      lbl_total @ format_quantity
        (bucket_total (bucket_of Bonds bs) + bucket_total (bucket_of Stocks bs)
           + bucket_total (bucket_of Etfs bs) + bucket_total (bucket_of Others bs))]"

definition report_lines :: "positions \<Rightarrow> pystr list" where
  "report_lines ps =
     (if ps = [] then [msg_no_data]
      else [msg_title, replicate 80 61, msg_format, replicate 80 61]
           @ section_lines hdr_bonds (bucket_of Bonds (categorize_assets ps))
           @ section_lines hdr_stocks (bucket_of Stocks (categorize_assets ps))
           @ section_lines hdr_etfs (bucket_of Etfs (categorize_assets ps))
           @ section_lines hdr_others (bucket_of Others (categorize_assets ps))
           @ [[10] @ replicate 80 61]
           @ totals_lines ps (categorize_assets ps))"





text \<open>
  The failure of the account listing or of the portfolio retrieval, with the exception
  raised, and the line printed when a brokerage account has been selected.
\<close>

definition fetch_failure :: "client \<Rightarrow> exn option" where
  "fetch_failure client =
     (case get_accounts client of
        Inl e \<Rightarrow> Some e
      | Inr accounts \<Rightarrow>
          (case find (\<lambda>acc. account_type acc = 1) accounts of
             None \<Rightarrow> None
           | Some broker_account \<Rightarrow>
               (case get_portfolio client (account_id broker_account) of
                  Inl e \<Rightarrow> Some e
                | Inr portfolio \<Rightarrow> None)))"

definition account_line :: "client \<Rightarrow> pystr list" where
  "account_line client =
     (case get_accounts client of
        Inl e \<Rightarrow> []
      | Inr accounts \<Rightarrow>
          (case find (\<lambda>acc. account_type acc = 1) accounts of
             None \<Rightarrow> []
           | Some broker_account \<Rightarrow> [msg_using_account @ account_id broker_account]))"

section \<open>Example inputs\<close>

text \<open>
  Two positions with different tickers, a share and a government bond, and two positions
  of different instruments with one ticker.
\<close>

definition sber_position :: "pystr \<times> position" where
  "sber_position =
     (ascii ''BBG004730N88'',
      \<lparr>name = [1057, 1073, 1077, 1088, 1073, 1072, 1085, 1082], quantity = 100,
       ticker = ascii ''SBER''\<rparr>)"

definition ofz_position :: "pystr \<times> position" where
  "ofz_position =
     (ascii ''BBG00XXXXXX1'',
      \<lparr>name = [1054, 1060, 1047, 32, 50, 54, 50, 51, 56], quantity = 500,
       ticker = ascii ''RU000A1B2C3''\<rparr>)"

definition scenario_positions :: positions where
  "scenario_positions = [sber_position, ofz_position]"

definition alpha_position :: "pystr \<times> position" where
  "alpha_position =
     (ascii ''FIGI0000A001'', \<lparr>name = ascii ''Alpha'', quantity = 10, ticker = ascii ''ABCD''\<rparr>)"

definition beta_position :: "pystr \<times> position" where
  "beta_position =
     (ascii ''FIGI0000B002'', \<lparr>name = ascii ''Beta'', quantity = 20, ticker = ascii ''ABCD''\<rparr>)"

definition clash_positions :: positions where
  "clash_positions = [alpha_position, beta_position]"

text \<open>
  An empty console and log. Three positions of one bucket with different tickers, two of
  them of equal quantity; and three positions of one bucket where the third has the ticker
  of the first and the quantity of the second.
\<close>

definition empty_io :: io where
  "empty_io = \<lparr>stdout = [], log = []\<rparr>"

definition tie_positions :: positions where
  "tie_positions =
     [(ascii ''FIGI0000A001'', \<lparr>name = ascii ''A'', quantity = 5, ticker = ascii ''AAA''\<rparr>),
      (ascii ''FIGI0000B002'', \<lparr>name = ascii ''B'', quantity = 7, ticker = ascii ''BBB''\<rparr>),
      (ascii ''FIGI0000C003'', \<lparr>name = ascii ''C'', quantity = 5, ticker = ascii ''CCC''\<rparr>)]"

definition swap_positions :: positions where
  "swap_positions =
     [(ascii ''FIGI0000A001'', \<lparr>name = ascii ''First'', quantity = 1, ticker = ascii ''XXX''\<rparr>),
      (ascii ''FIGI0000B002'', \<lparr>name = ascii ''Second'', quantity = 5, ticker = ascii ''YYY''\<rparr>),
      (ascii ''FIGI0000C003'', \<lparr>name = ascii ''Third'', quantity = 5, ticker = ascii ''XXX''\<rparr>)]"

text \<open>
  Clients: one whose portfolio has a single position and whose instrument lookup gives a
  fixed answer; one with a second account of another type and with positions of quantity
  ten, zero and minus five; one whose portfolio retrieval raises.
\<close>

definition broker_account :: account where
  "broker_account = \<lparr>account_id = ascii ''2000123456'', account_type = 1\<rparr>"

definition lookup_client :: "exn + instrument option \<Rightarrow> client" where
  "lookup_client answer =
     \<lparr>get_accounts = Inr [broker_account],
      get_portfolio = (\<lambda>account_id.
        Inr [\<lparr>figi = ascii ''FIGI00001'', position_quantity = \<lparr>units = 10, nano = 0\<rparr>\<rparr>]),
      get_instrument_by = (\<lambda>id_type figi. answer)\<rparr>"

definition mixed_client :: client where
  "mixed_client =
     \<lparr>get_accounts = Inr [\<lparr>account_id = ascii ''1000000001'', account_type = 2\<rparr>, broker_account],
      get_portfolio = (\<lambda>account_id.
        Inr [\<lparr>figi = ascii ''BBG004730N88'', position_quantity = \<lparr>units = 10, nano = 0\<rparr>\<rparr>,
             \<lparr>figi = ascii ''BBG004731032'', position_quantity = \<lparr>units = 0, nano = 500000000\<rparr>\<rparr>,
             \<lparr>figi = ascii ''BBG004731354'', position_quantity = \<lparr>units = - 5, nano = 0\<rparr>\<rparr>]),
      get_instrument_by = (\<lambda>id_type figi.
        Inr (Some \<lparr>instrument_name = ascii ''Sberbank'', instrument_ticker = ascii ''SBER''\<rparr>))\<rparr>"

definition failing_client :: client where
  "failing_client =
     \<lparr>get_accounts = Inr [broker_account],
      get_portfolio = (\<lambda>account_id. Inl (Exception (ascii ''UNAVAILABLE''))),
      get_instrument_by = (\<lambda>id_type figi. Inr None)\<rparr>"

section \<open>Properties of the quantity formatter\<close>

text \<open>
  The two recursive formatters unfold under their guards, so that a concrete number is
  formatted by rewriting.
\<close>

lemma decimal_small: "n < 10 \<Longrightarrow> decimal n = [48 + n]"
  by (simp add: decimal.simps)

lemma decimal_large: "\<not> n < 10 \<Longrightarrow> decimal n = decimal (n div 10) @ [48 + n mod 10]"
  by (subst decimal.simps) simp

lemma group_thousands_short: "length ds \<le> 3 \<Longrightarrow> group_thousands ds = ds"
  by (simp add: group_thousands.simps)

lemma group_thousands_long:
  "\<not> length ds \<le> 3 \<Longrightarrow>
     group_thousands ds = group_thousands (take (length ds - 3) ds) @ [44] @ drop (length ds - 3) ds"
  by (subst group_thousands.simps) simp

lemma mod4_shift: "i < n \<Longrightarrow> ((n::nat) + 4 - i) mod 4 = (n - i) mod 4"
proof -
  assume "i < n"
  then have "n + 4 - i = (n - i) + 4" by linarith
  then show ?thesis by (simp only: mod_add_self2)
qed

lemma mod4_pos: "0 < k \<Longrightarrow> k < 4 \<Longrightarrow> (k::nat) mod 4 \<noteq> 0"
  by simp

lemma comma_positions:
  "44 \<notin> set ds \<Longrightarrow> i < length (group_thousands ds) \<Longrightarrow>
     (group_thousands ds ! i = 44) = ((length (group_thousands ds) - i) mod 4 = 0)"
proof (induction ds arbitrary: i rule: group_thousands.induct)
  case (1 ds)
  show ?case
  proof (cases "length ds \<le> 3")
    case True
    with "1.prems" have i: "i < length ds" by (simp add: group_thousands_short)
    then have "ds ! i \<in> set ds" by simp
    with "1.prems"(1) have "ds ! i \<noteq> 44" by auto
    moreover have "0 < length ds - i" "length ds - i < 4" using i True by simp_all
    then have "(length ds - i) mod 4 \<noteq> 0" by (rule mod4_pos)
    ultimately show ?thesis using True by (simp add: group_thousands_short)
  next
    case False
    define g where "g = group_thousands (take (length ds - 3) ds)"
    define r where "r = drop (length ds - 3) ds"
    have eq: "group_thousands ds = g @ 44 # r"
      by (simp add: group_thousands_long [OF False] g_def r_def)
    have lr: "length r = 3" using False by (simp add: r_def)
    have len: "length (group_thousands ds) = length g + 4" by (simp add: eq lr)
    have a: "44 \<notin> set (take (length ds - 3) ds)"
      using "1.prems"(1) by (auto dest: in_set_takeD)
    have b: "44 \<notin> set r"
      using "1.prems"(1) unfolding r_def by (auto dest: in_set_dropD)
    consider "i < length g" | "i = length g" | "length g < i" by linarith
    then show ?thesis
    proof cases
      case 1
      have "(g ! i = 44) = ((length g - i) mod 4 = 0)"
        using "1.IH" [OF False a] 1 by (simp add: g_def)
      moreover have "(length g + 4 - i) mod 4 = (length g - i) mod 4"
        using 1 by (rule mod4_shift)
      moreover have "group_thousands ds ! i = g ! i" using 1 by (simp add: eq nth_append)
      ultimately show ?thesis by (simp only: len)
    next
      case 2
      have "group_thousands ds ! i = 44" using 2 by (simp add: eq)
      moreover have "length g + 4 - i = 4" using 2 by simp
      ultimately show ?thesis by (simp only: len) simp
    next
      case 3
      from 3 "1.prems"(2) have i: "i - length g - 1 < 3" by (simp add: len)
      have "group_thousands ds ! i = r ! (i - length g - 1)"
        using 3 by (simp add: eq nth_append nth_Cons')
      moreover have "r ! (i - length g - 1) \<in> set r" using i lr by simp
      then have "r ! (i - length g - 1) \<noteq> 44" using b by auto
      moreover have "0 < length g + 4 - i" "length g + 4 - i < 4"
        using 3 "1.prems"(2) by (simp_all add: len)
      then have "(length g + 4 - i) mod 4 \<noteq> 0" by (rule mod4_pos)
      ultimately show ?thesis by (simp only: len)
    qed
  qed
qed


lemma ascii_Nil: "ascii [] = []"
  by (simp add: ascii_def)

lemma ascii_Cons: "ascii (c # cs) = of_char c # ascii cs"
  by (simp add: ascii_def)

lemmas format_eval =
  format_quantity_def format_comma_def replace_char_def py_str_int_def
  decimal_small decimal_large group_thousands_short group_thousands_long

lemma decimal_digits: "c \<in> set (decimal n) \<Longrightarrow> 48 \<le> c \<and> c \<le> 57"
proof (induction n rule: decimal.induct)
  case (1 n)
  show ?case
  proof (cases "n < 10")
    case True
    with "1.prems" show ?thesis by (simp add: decimal_small)
  next
    case False
    with "1.prems" have "c \<in> set (decimal (n div 10)) \<or> c = 48 + n mod 10"
      by (auto simp: decimal_large)
    moreover have "n mod 10 < 10" by simp
    ultimately show ?thesis using "1.IH" [OF False] by auto
  qed
qed

lemma filter_group_thousands:
  "44 \<notin> set ds \<Longrightarrow> filter (\<lambda>c. c \<noteq> 44) (group_thousands ds) = ds"
proof (induction ds rule: group_thousands.induct)
  case (1 ds)
  show ?case
  proof (cases "length ds \<le> 3")
    case True
    with "1.prems" show ?thesis by (auto simp: group_thousands_short filter_id_conv)
  next
    case False
    have a: "44 \<notin> set (take (length ds - 3) ds)" and b: "44 \<notin> set (drop (length ds - 3) ds)"
      using "1.prems" by (auto dest: in_set_takeD in_set_dropD)
    have "filter (\<lambda>c. c \<noteq> 44) (group_thousands ds)
            = take (length ds - 3) ds @ filter (\<lambda>c. c \<noteq> 44) (drop (length ds - 3) ds)"
      using "1.IH" [OF False a] by (simp add: group_thousands_long [OF False])
    also have "filter (\<lambda>c. c \<noteq> 44) (drop (length ds - 3) ds) = drop (length ds - 3) ds"
      using b by (auto simp: filter_id_conv)
    finally show ?thesis by simp
  qed
qed

lemma set_group_thousands: "set (group_thousands ds) \<subseteq> insert 44 (set ds)"
proof (induction ds rule: group_thousands.induct)
  case (1 ds)
  show ?case
  proof (cases "length ds \<le> 3")
    case True
    then show ?thesis by (auto simp: group_thousands_short)
  next
    case False
    show ?thesis
      using "1.IH" [OF False]
      by (auto simp: group_thousands_long [OF False] dest: in_set_takeD in_set_dropD)
  qed
qed

lemma format_quantity_nonneg:
  "0 \<le> n \<Longrightarrow>
     format_quantity n = map (\<lambda>c. if c = 44 then 32 else c) (group_thousands (decimal (nat n)))"
  by (simp add: format_quantity_def format_comma_def replace_char_def)

lemma grouped_chars:
  "c \<in> set (group_thousands (decimal m)) \<Longrightarrow> c = 44 \<or> (48 \<le> c \<and> c \<le> 57)"
  using set_group_thousands [of "decimal m"] decimal_digits [of c m] by auto

lemma no_comma_decimal: "44 \<notin> set (decimal m)"
  using decimal_digits [of 44 m] by auto

lemma format_quantity_digits:
  assumes "0 \<le> n"
  shows "filter (\<lambda>c. c \<noteq> 32) (format_quantity n) = decimal (nat n)"
proof -
  let ?g = "group_thousands (decimal (nat n))"
  let ?f = "\<lambda>c::nat. if c = 44 then 32 else c"
  have "filter (\<lambda>c. c \<noteq> 32) (map ?f ?g) = map ?f (filter (\<lambda>c. ?f c \<noteq> 32) ?g)"
    by (simp add: filter_map comp_def)
  also have "filter (\<lambda>c. ?f c \<noteq> 32) ?g = filter (\<lambda>c. c \<noteq> 44) ?g"
    by (rule filter_cong) (auto dest: grouped_chars)
  also have "\<dots> = decimal (nat n)"
    by (rule filter_group_thousands) (rule no_comma_decimal)
  also have "map ?f (decimal (nat n)) = decimal (nat n)"
    by (rule map_idI) (auto dest: decimal_digits)
  finally show ?thesis using assms by (simp only: format_quantity_nonneg)
qed

lemma format_quantity_spaces:
  assumes "0 \<le> n" and "i < length (format_quantity n)"
  shows "(format_quantity n ! i = 32) = ((length (format_quantity n) - i) mod 4 = 0)"
proof -
  let ?g = "group_thousands (decimal (nat n))"
  have fq: "format_quantity n = map (\<lambda>c. if c = 44 then 32 else c) ?g"
    using assms(1) by (rule format_quantity_nonneg)
  have i: "i < length ?g" using assms(2) by (simp add: fq)
  then have "?g ! i \<in> set ?g" by simp
  then have "?g ! i = 44 \<or> (48 \<le> ?g ! i \<and> ?g ! i \<le> 57)" by (rule grouped_chars)
  then have "(format_quantity n ! i = 32) = (?g ! i = 44)"
    using i by (auto simp: fq)
  also have "\<dots> = ((length ?g - i) mod 4 = 0)"
    using no_comma_decimal i by (rule comma_positions)
  finally show ?thesis by (simp add: fq)
qed

lemma decimal_nonempty: "decimal n \<noteq> []"
  by (cases "n < 10") (simp_all add: decimal_small decimal_large)

lemma digits_value_decimal: "digits_value (decimal n) = n"
proof (induction n rule: decimal.induct)
  case (1 n)
  show ?case
  proof (cases "n < 10")
    case True
    then show ?thesis by (simp add: decimal_small digits_value_def)
  next
    case False
    have "digits_value (decimal n) = 10 * digits_value (decimal (n div 10)) + n mod 10"
      by (simp add: decimal_large [OF False] digits_value_def)
    also have "\<dots> = 10 * (n div 10) + n mod 10" by (simp only: "1.IH" [OF False])
    also have "\<dots> = n" by simp
    finally show ?thesis .
  qed
qed

lemma decimal_no_leading_zero: "0 < n \<Longrightarrow> hd (decimal n) \<noteq> 48"
proof (induction n rule: decimal.induct)
  case (1 n)
  show ?case
  proof (cases "n < 10")
    case True
    with "1.prems" show ?thesis by (simp add: decimal_small)
  next
    case False
    then have "0 < n div 10" by simp
    then have "hd (decimal (n div 10)) \<noteq> 48" by (rule "1.IH" [OF False])
    then show ?thesis by (simp add: decimal_large [OF False] decimal_nonempty)
  qed
qed

lemma div3_shift: "4 \<le> l \<Longrightarrow> ((l::nat) - 1) div 3 = (l - 4) div 3 + 1"
proof -
  assume "4 \<le> l"
  then have "l - 1 = (l - 4) + 3" by linarith
  then show ?thesis by (simp only: div_add_self2)
qed

lemma length_group_thousands:
  "length (group_thousands ds) = length ds + (length ds - 1) div 3"
proof (induction ds rule: group_thousands.induct)
  case (1 ds)
  show ?case
  proof (cases "length ds \<le> 3")
    case True
    then have "(length ds - 1) div 3 = 0" by simp
    with True show ?thesis by (simp add: group_thousands_short)
  next
    case False
    then have l: "4 \<le> length ds" by simp
    have "length (group_thousands ds)
            = length (group_thousands (take (length ds - 3) ds)) + 4"
      using False by (simp add: group_thousands_long [OF False])
    also have "\<dots> = (length ds - 3) + (length ds - 3 - 1) div 3 + 4"
      using "1.IH" [OF False] l by simp
    also have "length ds - 3 - 1 = length ds - 4" by simp
    also have "(length ds - 3) + (length ds - 4) div 3 + 4 = length ds + ((length ds - 4) div 3 + 1)"
      using l by simp
    also have "(length ds - 4) div 3 + 1 = (length ds - 1) div 3"
      using l by (rule div3_shift [symmetric])
    finally show ?thesis .
  qed
qed

lemma hd_group_thousands: "ds \<noteq> [] \<Longrightarrow> hd (group_thousands ds) = hd ds"
proof (induction ds rule: group_thousands.induct)
  case (1 ds)
  show ?case
  proof (cases "length ds \<le> 3")
    case True
    then show ?thesis by (simp add: group_thousands_short)
  next
    case False
    let ?t = "take (length ds - 3) ds"
    from False have t: "?t \<noteq> []" by auto
    have "length (group_thousands ?t) = length ?t + (length ?t - 1) div 3"
      by (rule length_group_thousands)
    with t have g: "group_thousands ?t \<noteq> []" by auto
    have "hd (group_thousands ds) = hd (group_thousands ?t)"
      using g by (simp add: group_thousands_long [OF False])
    also have "\<dots> = hd ?t" using False t by (rule "1.IH")
    also have "\<dots> = hd ds" using False by (simp add: hd_take)
    finally show ?thesis .
  qed
qed

lemma format_quantity_length:
  assumes "0 \<le> n"
  shows "length (format_quantity n)
           = length (decimal (nat n)) + (length (decimal (nat n)) - 1) div 3"
  using assms by (simp add: format_quantity_nonneg length_group_thousands)

lemma format_quantity_first:
  assumes "0 \<le> n"
  shows "format_quantity n \<noteq> [] \<and> hd (format_quantity n) \<noteq> 32"
proof -
  let ?d = "decimal (nat n)"
  let ?g = "group_thousands ?d"
  have d: "?d \<noteq> []" by (rule decimal_nonempty)
  have "length ?g = length ?d + (length ?d - 1) div 3" by (rule length_group_thousands)
  with d have g: "?g \<noteq> []" by auto
  have "hd ?g = hd ?d" using d by (rule hd_group_thousands)
  moreover have "hd ?d \<in> set ?d" using d by simp
  then have "48 \<le> hd ?d \<and> hd ?d \<le> 57" by (rule decimal_digits)
  ultimately have "hd ?g \<noteq> 44" "hd ?g \<noteq> 32" by simp_all
  then show ?thesis
    using g assms by (simp add: format_quantity_nonneg hd_map)
qed

text \<open>
  C8. For a quantity that is not negative, \<open>format_quantity\<close> writes the decimal
  digits in groups of three, counted from the right, with one space between two groups.
  Without its spaces the text is the decimal numeral of the quantity: digits only, denoting
  the quantity, with no leading zero for a positive quantity. The character at a position
  is a space exactly when the number of characters from that position to the end is a
  multiple of four. The text has one separator for every three digits after the first,
  and nothing else: its length is the number of digits plus the number of digits minus one,
  divided by three. It is not empty and does not start with a space. In particular 0, 999,
  1000, 12345 and 1234567 are written \<open>0\<close>, \<open>999\<close>, \<open>1 000\<close>,
  \<open>12 345\<close> and \<open>1 234 567\<close>.
\<close>

theorem format_quantity_groups_in_threes:
  "format_quantity 0 = ascii ''0''
   \<and> format_quantity 999 = ascii ''999''
   \<and> format_quantity 1000 = ascii ''1 000''
   \<and> format_quantity 12345 = ascii ''12 345''
   \<and> format_quantity 1234567 = ascii ''1 234 567''
   \<and> (0 \<le> n \<longrightarrow>
        filter (\<lambda>c. c \<noteq> 32) (format_quantity n) = decimal (nat n)
        \<and> (\<forall>i < length (format_quantity n).
              (format_quantity n ! i = 32) = ((length (format_quantity n) - i) mod 4 = 0))
        \<and> length (format_quantity n)
            = length (decimal (nat n)) + (length (decimal (nat n)) - 1) div 3
        \<and> format_quantity n \<noteq> []
        \<and> hd (format_quantity n) \<noteq> 32
        \<and> (\<forall>c \<in> set (decimal (nat n)). 48 \<le> c \<and> c \<le> 57)
        \<and> digits_value (decimal (nat n)) = nat n
        \<and> (0 < n \<longrightarrow> hd (decimal (nat n)) \<noteq> 48))"
proof (intro conjI impI allI ballI)
  show "format_quantity 0 = ascii ''0''"
    and "format_quantity 999 = ascii ''999''"
    and "format_quantity 1000 = ascii ''1 000''"
    and "format_quantity 12345 = ascii ''12 345''"
    and "format_quantity 1234567 = ascii ''1 234 567''"
    by (simp_all add: format_eval ascii_Nil ascii_Cons)
next
  assume "0 \<le> n"
  then show "filter (\<lambda>c. c \<noteq> 32) (format_quantity n) = decimal (nat n)"
    by (rule format_quantity_digits)
next
  fix i
  assume "0 \<le> n" and "i < length (format_quantity n)"
  then show "(format_quantity n ! i = 32) = ((length (format_quantity n) - i) mod 4 = 0)"
    by (rule format_quantity_spaces)
next
  assume "0 \<le> n"
  then show "length (format_quantity n)
            = length (decimal (nat n)) + (length (decimal (nat n)) - 1) div 3"
    by (rule format_quantity_length)
next
  assume "0 \<le> n"
  then show "format_quantity n \<noteq> []"
    by (rule format_quantity_first [THEN conjunct1])
next
  assume "0 \<le> n"
  then show "hd (format_quantity n) \<noteq> 32"
    by (rule format_quantity_first [THEN conjunct2])
next
  fix c
  assume "c \<in> set (decimal (nat n))"
  then have "48 \<le> c \<and> c \<le> 57" by (rule decimal_digits)
  then show "48 \<le> c" and "c \<le> 57" by simp_all
next
  show "digits_value (decimal (nat n)) = nat n" by (rule digits_value_decimal)
next
  assume "0 < n"
  then have "0 < nat n" by simp
  then show "hd (decimal (nat n)) \<noteq> 48" by (rule decimal_no_leading_zero)
qed

text \<open>The property at 7654321, written \<open>7 654 321\<close>.\<close>

theorem format_quantity_groups_in_threes_witness:
  "(0::int) \<le> 7654321
   \<and> filter (\<lambda>c. c \<noteq> 32) (format_quantity 7654321) = ascii ''7654321''
   \<and> format_quantity 7654321 ! 1 = 32 \<and> format_quantity 7654321 ! 5 = 32
   \<and> length (format_quantity 7654321) = 9
   \<and> hd (format_quantity 7654321) \<noteq> 32"
proof -
  have n: "(0::int) \<le> 7654321" by simp
  have d: "decimal (nat 7654321) = ascii ''7654321''"
    by (simp add: format_eval ascii_Nil ascii_Cons)
  note th = format_quantity_groups_in_threes [of 7654321, THEN conjunct2, THEN conjunct2,
    THEN conjunct2, THEN conjunct2, THEN conjunct2, THEN mp, OF n]
  have f: "filter (\<lambda>c. c \<noteq> 32) (format_quantity 7654321) = ascii ''7654321''"
    using th [THEN conjunct1] by (simp only: d)
  have "length (format_quantity 7654321)
          = length (decimal (nat 7654321)) + (length (decimal (nat 7654321)) - 1) div 3"
    by (rule th [THEN conjunct2, THEN conjunct2, THEN conjunct1])
  then have "length (format_quantity 7654321)
          = length (ascii ''7654321'') + (length (ascii ''7654321'') - 1) div 3"
    by (simp only: d)
  then have l: "length (format_quantity 7654321) = 9"
    by (simp add: ascii_Nil ascii_Cons)
  have sp: "\<forall>i < length (format_quantity 7654321).
           (format_quantity 7654321 ! i = 32) = ((length (format_quantity 7654321) - i) mod 4 = 0)"
    by (rule th [THEN conjunct2, THEN conjunct1])
  have s1: "format_quantity 7654321 ! 1 = 32" and s5: "format_quantity 7654321 ! 5 = 32"
    using sp by (simp_all add: l)
  have h: "hd (format_quantity 7654321) \<noteq> 32"
    by (rule th [THEN conjunct2, THEN conjunct2, THEN conjunct2, THEN conjunct2, THEN conjunct1])
  show ?thesis by (intro conjI n f s1 s5 l h)
qed

section \<open>Properties of the classifier\<close>

text \<open>
  Each dictionary returned by \<open>categorize_assets\<close> is the result of assigning, in the
  order of the iteration, the entries of the positions that the rule sends to it.
\<close>

lemma bucket_of_step:
  "bucket_of b (categorize_step p bs) =
     (if class_of p = b then assign (entry p) (bucket_of b bs) else bucket_of b bs)"
  by (cases b; cases p; cases bs)
     (auto simp: categorize_step_def class_of_def asset_class_def entry_def assign_def Let_def)

lemma bucket_of_fold:
  "bucket_of b (fold categorize_step ps bs) = fold assign (entries b ps) (bucket_of b bs)"
  by (induction ps arbitrary: bs) (simp_all add: entries_def bucket_of_step)

lemma bucket_of_categorize:
  "bucket_of b (categorize_assets ps) = fold assign (entries b ps) []"
  unfolding categorize_assets_def bucket_of_fold by (cases b) simp_all

lemma map_of_fold_assign:
  "map_of (fold assign es al) = map_of al ++ map_of (rev es)"
  by (induction es arbitrary: al) (simp_all add: assign_def update_conv')

lemma distinct_fold_assign:
  "distinct (map fst al) \<Longrightarrow> distinct (map fst (fold assign es al))"
  by (induction es arbitrary: al) (simp_all add: assign_def distinct_update)

lemma keys_last_wins: "fst ` set (last_wins es) = fst ` set es"
  by (induction es) auto

lemma distinct_last_wins: "distinct (map fst (last_wins es))"
  by (induction es) (auto simp: keys_last_wins)

lemma map_of_last_wins: "map_of (last_wins es) = map_of (rev es)"
proof (induction es)
  case Nil
  show ?case by simp
next
  case (Cons e es)
  show ?case
  proof (cases "fst e \<in> fst ` set es")
    case True
    then have "fst e \<in> dom (map_of (rev es))" by (simp add: dom_map_of_conv_image_fst)
    then have "map_of [e] ++ map_of (rev es) = map_of (rev es)"
      by (auto simp: map_add_def fun_eq_iff split: option.splits)
    with True Cons show ?thesis by (simp add: map_of_append del: map_of.simps)
  next
    case False
    then have "fst e \<notin> dom (map_of (rev es))" by (simp add: dom_map_of_conv_image_fst)
    then have "map_of [e] ++ map_of (rev es) = (map_of (rev es))(fst e \<mapsto> snd e)"
      by (auto simp: map_add_def fun_eq_iff split: option.splits)
    with False Cons show ?thesis by simp
  qed
qed

lemma set_fold_assign: "set (fold assign es []) = set (last_wins es)"
proof -
  have "map_of (fold assign es []) = map_of (last_wins es)"
    by (simp add: map_of_fold_assign map_of_last_wins)
  moreover have "distinct (map fst (fold assign es []))"
    by (rule distinct_fold_assign) simp
  ultimately show ?thesis
    using distinct_last_wins [of es] by (simp add: map_of_inject_set)
qed


lemma last_wins_drop_overwritten:
  "fst e \<in> fst ` set ys \<Longrightarrow> last_wins (xs @ e # ys) = last_wins (xs @ ys)"
  by (induction xs) auto

lemma last_wins_keeps_last:
  "fst e \<notin> fst ` set ys \<Longrightarrow> e \<in> set (last_wins (xs @ e # ys))"
  by (induction xs) auto

lemma set_last_wins_subset: "set (last_wins es) \<subseteq> set es"
  by (induction es) auto

text \<open>The dictionaries returned by the classifier.\<close>

lemma set_bucket: "set (bucket_of b (categorize_assets ps)) = set (last_wins (entries b ps))"
  by (simp add: bucket_of_categorize set_fold_assign)

lemma distinct_bucket_keys: "distinct (map fst (bucket_of b (categorize_assets ps)))"
  unfolding bucket_of_categorize by (rule distinct_fold_assign) simp

lemma distinct_bucket: "distinct (bucket_of b (categorize_assets ps))"
  using distinct_bucket_keys [of b ps] by (simp add: distinct_map)

lemma keys_bucket:
  "fst ` set (bucket_of b (categorize_assets ps)) = fst ` set (entries b ps)"
  by (simp add: set_bucket keys_last_wins)

lemma entries_append: "entries b (xs @ ys) = entries b xs @ entries b ys"
  by (simp add: entries_def)

lemma entries_Cons:
  "entries b (p # ps) = (if class_of p = b then entry p # entries b ps else entries b ps)"
  by (simp add: entries_def)

lemma keys_entries:
  "fst ` set (entries b ps) = (\<lambda>q. ticker (snd q)) ` {q \<in> set ps. class_of q = b}"
  by (simp add: entries_def entry_def image_image)

lemma entry_in_bucket_class:
  assumes "entry p \<in> set (bucket_of b (categorize_assets ps))"
  shows "b = class_of p"
proof -
  from assms have "entry p \<in> set (entries b ps)"
    using set_last_wins_subset [of "entries b ps"] by (auto simp: set_bucket)
  then obtain q where q: "q \<in> set ps" "class_of q = b" "entry q = entry p"
    by (auto simp: entries_def)
  from q(3) have "ticker (snd q) = ticker (snd p)" "name (snd q) = name (snd p)"
    by (simp_all add: entry_def)
  then have "class_of q = class_of p" by (simp add: class_of_def)
  with q(2) show ?thesis by simp
qed

lemma entry_kept:
  assumes "\<forall>q \<in> set ys. ticker (snd q) = ticker (snd p) \<longrightarrow> class_of q \<noteq> class_of p"
  shows "entry p \<in> set (bucket_of (class_of p) (categorize_assets (xs @ p # ys)))"
proof -
  have "fst (entry p) \<notin> fst ` set (entries (class_of p) ys)"
    using assms by (auto simp: keys_entries entry_def)
  then have "entry p \<in> set (last_wins (entries (class_of p) xs @ entry p # entries (class_of p) ys))"
    by (rule last_wins_keeps_last)
  then show ?thesis by (simp add: set_bucket entries_append entries_Cons)
qed

lemma filter_classes_eq: "filter (\<lambda>b. b = c) [Bonds, Stocks, Etfs, Others] = [c]"
  by (cases c) simp_all

lemma filter_classes_le:
  "(\<And>b. P b \<Longrightarrow> b = c) \<Longrightarrow> length (filter P [Bonds, Stocks, Etfs, Others]) \<le> 1"
  by (cases c) auto

text \<open>
  C1, as amended. The entry of a position is never found in two buckets. A position that
  is not followed, in the order of the iteration, by a position with the same ticker that
  the rule sends to the same bucket is found in exactly one bucket, the one the rule
  selects for it.
\<close>

theorem position_in_bucket_of_its_class:
  "length (buckets_holding p (categorize_assets ps)) \<le> 1
   \<and> (ps = xs @ p # ys
        \<and> (\<forall>q \<in> set ys. ticker (snd q) = ticker (snd p) \<longrightarrow> class_of q \<noteq> class_of p)
      \<longrightarrow> buckets_holding p (categorize_assets ps) = [class_of p])"
proof (intro conjI impI)
  show "length (buckets_holding p (categorize_assets ps)) \<le> 1"
    unfolding buckets_holding_def
    by (rule filter_classes_le [where c = "class_of p"]) (rule entry_in_bucket_class)
next
  assume a: "ps = xs @ p # ys
    \<and> (\<forall>q \<in> set ys. ticker (snd q) = ticker (snd p) \<longrightarrow> class_of q \<noteq> class_of p)"
  from a have ps: "ps = xs @ p # ys" by (rule conjunct1)
  from a have later: "\<forall>q \<in> set ys. ticker (snd q) = ticker (snd p) \<longrightarrow> class_of q \<noteq> class_of p"
    by (rule conjunct2)
  have kept: "entry p \<in> set (bucket_of (class_of p) (categorize_assets ps))"
    unfolding ps using later by (rule entry_kept)
  have "(entry p \<in> set (bucket_of b (categorize_assets ps))) = (b = class_of p)" for b
  proof
    assume "entry p \<in> set (bucket_of b (categorize_assets ps))"
    then show "b = class_of p" by (rule entry_in_bucket_class)
  next
    assume "b = class_of p"
    with kept show "entry p \<in> set (bucket_of b (categorize_assets ps))" by simp
  qed
  then have "(\<lambda>b. entry p \<in> set (bucket_of b (categorize_assets ps))) = (\<lambda>b. b = class_of p)"
    by (simp add: fun_eq_iff)
  then show "buckets_holding p (categorize_assets ps) = [class_of p]"
    unfolding buckets_holding_def by (simp only: filter_classes_eq)
qed


lemmas string_eval =
  ascii_Nil ascii_Cons startswith_def lit_OFZ_def lit_BO_def lit_fond_def

lemmas classify_eval =
  string_eval class_of_def asset_class_def categorize_assets_def categorize_step_def Let_def

lemma class_of_sber: "class_of sber_position = Stocks"
  by (simp add: sber_position_def classify_eval)


lemma class_of_alpha: "class_of alpha_position = Stocks"
  by (simp add: alpha_position_def classify_eval)

lemma class_of_beta: "class_of beta_position = Stocks"
  by (simp add: beta_position_def classify_eval)

lemma categorize_clash:
  "categorize_assets clash_positions = ([], [entry beta_position], [], [])"
  by (simp add: clash_positions_def alpha_position_def beta_position_def entry_def classify_eval)

lemma entry_alpha_beta: "entry alpha_position \<noteq> entry beta_position"
  by (simp add: alpha_position_def beta_position_def entry_def)

text \<open>
  C1, as stated, fails: of two positions with one ticker in one bucket, the first is found
  in no bucket.
\<close>

theorem overwritten_position_in_no_bucket:
  "buckets_holding alpha_position (categorize_assets clash_positions) = []"
  by (simp add: buckets_holding_def categorize_clash entry_alpha_beta)

text \<open>The share of the two-position example is found in the stocks bucket only.\<close>

theorem position_in_bucket_of_its_class_witness:
  "scenario_positions = [] @ sber_position # [ofz_position]
   \<and> ticker (snd ofz_position) \<noteq> ticker (snd sber_position)
   \<and> buckets_holding sber_position (categorize_assets scenario_positions) = [Stocks]"
proof -
  have ps: "scenario_positions = [] @ sber_position # [ofz_position]"
    by (simp add: scenario_positions_def)
  have t: "ticker (snd ofz_position) \<noteq> ticker (snd sber_position)"
    by (simp add: ofz_position_def sber_position_def ascii_Nil ascii_Cons)
  then have later: "\<forall>q \<in> set [ofz_position].
         ticker (snd q) = ticker (snd sber_position) \<longrightarrow> class_of q \<noteq> class_of sber_position"
    by simp
  from ps later
  have "buckets_holding sber_position (categorize_assets scenario_positions)
          = [class_of sber_position]"
    using position_in_bucket_of_its_class
            [of sber_position scenario_positions "[]" "[ofz_position]"]
    by (simp only: simp_thms)
  then have "buckets_holding sber_position (categorize_assets scenario_positions) = [Stocks]"
    by (simp only: class_of_sber)
  with ps t show ?thesis by (intro conjI)
qed

section \<open>Two positions under one ticker\<close>

lemma one_entry_per_key:
  "distinct (map fst al) \<Longrightarrow> k \<in> fst ` set al \<Longrightarrow> length (filter (\<lambda>e. fst e = k) al) = 1"
proof (induction al)
  case Nil
  then show ?case by simp
next
  case (Cons a al)
  show ?case
  proof (cases "fst a = k")
    case True
    with Cons.prems(1) have "k \<notin> fst ` set al" by auto
    then have "filter (\<lambda>e. fst e = k) al = []" by (auto simp: filter_empty_conv)
    with True show ?thesis by simp
  next
    case False
    with Cons show ?thesis by auto
  qed
qed

lemma total_as_sum:
  "bucket_total (bucket_of b (categorize_assets ps))
     = sum (\<lambda>e. quantity (snd e)) (set (bucket_of b (categorize_assets ps)))"
proof -
  have "bucket_total (bucket_of b (categorize_assets ps))
          = sum_list (map (\<lambda>e. quantity (snd e)) (bucket_of b (categorize_assets ps)))"
    by (simp add: bucket_total_def comp_def)
  also have "\<dots> = sum (\<lambda>e. quantity (snd e)) (set (bucket_of b (categorize_assets ps)))"
    using distinct_bucket by (rule sum_list_distinct_conv_sum_set)
  finally show ?thesis .
qed

text \<open>
  C4. When two positions have the same ticker and the rule sends both to the same bucket,
  the bucket has exactly one entry under that ticker; it carries the name and quantity of
  the later position, provided no position iterated after it has the same ticker and
  bucket (which would overwrite in turn); and the bucket holds the same entries, and has
  the same subtotal, as if the earlier position were not in the input.
\<close>

theorem later_position_overwrites_earlier:
  assumes "ps = xs @ p1 # ys @ p2 # zs"
    and "ticker (snd p1) = ticker (snd p2)"
    and "class_of p1 = b" and "class_of p2 = b"
  shows "length (filter (\<lambda>e. fst e = ticker (snd p2)) (bucket_of b (categorize_assets ps))) = 1
    \<and> ((\<forall>q \<in> set zs. ticker (snd q) = ticker (snd p2) \<longrightarrow> class_of q \<noteq> b)
          \<longrightarrow> map_of (bucket_of b (categorize_assets ps)) (ticker (snd p2)) = Some (snd (entry p2)))
    \<and> set (bucket_of b (categorize_assets ps))
          = set (bucket_of b (categorize_assets (xs @ ys @ p2 # zs)))
    \<and> bucket_total (bucket_of b (categorize_assets ps))
          = bucket_total (bucket_of b (categorize_assets (xs @ ys @ p2 # zs)))"
proof (intro conjI impI)
  have "ticker (snd p2) \<in> fst ` set (entries b ps)"
    using assms(1,4) by (simp add: keys_entries)
  then have "ticker (snd p2) \<in> fst ` set (bucket_of b (categorize_assets ps))"
    by (simp only: keys_bucket)
  with distinct_bucket_keys
  show "length (filter (\<lambda>e. fst e = ticker (snd p2)) (bucket_of b (categorize_assets ps))) = 1"
    by (rule one_entry_per_key)
next
  assume last: "\<forall>q \<in> set zs. ticker (snd q) = ticker (snd p2) \<longrightarrow> class_of q \<noteq> b"
  have "entry p2 \<in> set (bucket_of (class_of p2) (categorize_assets ((xs @ p1 # ys) @ p2 # zs)))"
    using last assms(4) by (intro entry_kept) simp
  then have "entry p2 \<in> set (bucket_of b (categorize_assets ps))"
    using assms(1,4) by simp
  then have "(ticker (snd p2), snd (entry p2)) \<in> set (bucket_of b (categorize_assets ps))"
    by (simp add: entry_def)
  with distinct_bucket_keys
  show "map_of (bucket_of b (categorize_assets ps)) (ticker (snd p2)) = Some (snd (entry p2))"
    by (rule map_of_is_SomeI)
next
  have "fst (entry p1) \<in> fst ` set (entries b (ys @ p2 # zs))"
    using assms(2,4) by (simp add: keys_entries entry_def)
  then have "last_wins (entries b xs @ entry p1 # entries b (ys @ p2 # zs))
               = last_wins (entries b xs @ entries b (ys @ p2 # zs))"
    by (rule last_wins_drop_overwritten)
  then have "last_wins (entries b ps) = last_wins (entries b (xs @ ys @ p2 # zs))"
    using assms(1,3) by (simp add: entries_append entries_Cons)
  then show same: "set (bucket_of b (categorize_assets ps))
          = set (bucket_of b (categorize_assets (xs @ ys @ p2 # zs)))"
    by (simp only: set_bucket)
  then show "bucket_total (bucket_of b (categorize_assets ps))
          = bucket_total (bucket_of b (categorize_assets (xs @ ys @ p2 # zs)))"
    by (simp only: total_as_sum)
qed

text \<open>The two positions with one ticker: the bucket keeps the later one, subtotal 20.\<close>

theorem later_position_overwrites_earlier_witness:
  "clash_positions = [] @ alpha_position # [] @ beta_position # []
   \<and> ticker (snd alpha_position) = ticker (snd beta_position)
   \<and> class_of alpha_position = Stocks \<and> class_of beta_position = Stocks
   \<and> length (filter (\<lambda>e. fst e = ascii ''ABCD'') (bucket_of Stocks (categorize_assets clash_positions))) = 1
   \<and> map_of (bucket_of Stocks (categorize_assets clash_positions)) (ascii ''ABCD'')
        = Some \<lparr>name = ascii ''Beta'', quantity = 20\<rparr>
   \<and> bucket_total (bucket_of Stocks (categorize_assets clash_positions)) = 20"
proof -
  have ps: "clash_positions = [] @ alpha_position # [] @ beta_position # []"
    by (simp add: clash_positions_def)
  have t: "ticker (snd alpha_position) = ticker (snd beta_position)"
    by (simp add: alpha_position_def beta_position_def)
  have tb: "ticker (snd beta_position) = ascii ''ABCD''"
    and eb: "snd (entry beta_position) = \<lparr>name = ascii ''Beta'', quantity = 20\<rparr>"
    by (simp_all add: beta_position_def entry_def)
  have tot: "bucket_total (bucket_of Stocks (categorize_assets [beta_position])) = 20"
    by (simp add: bucket_total_def beta_position_def entry_def classify_eval)
  show ?thesis
    using later_position_overwrites_earlier [OF ps t class_of_alpha class_of_beta]
    by (simp add: clash_positions_def t tb eb tot class_of_alpha class_of_beta)
qed


section \<open>The bond prefix\<close>

lemma class_of_ru000: "startswith (ticker (snd p)) (ascii ''RU000'') \<Longrightarrow> class_of p = Bonds"
  by (simp add: class_of_def asset_class_def)

text \<open>
  C5. A position whose ticker starts with \<open>RU000\<close> is assigned to the bonds
  dictionary, whatever its name and quantity: the step of the loop writes its entry there;
  in the result its ticker is a key of the bonds bucket and of no other bucket; and its
  entry is in the bonds bucket unless a later position has the same ticker.
\<close>

theorem ru000_ticker_goes_to_bonds:
  assumes "startswith (ticker (snd p)) (ascii ''RU000'')"
  shows "categorize_step p (bonds, stocks, etfs, others)
           = (AList.update (ticker (snd p)) \<lparr>name = name (snd p), quantity = quantity (snd p)\<rparr> bonds,
              stocks, etfs, others)
    \<and> (p \<in> set ps \<longrightarrow>
          ticker (snd p) \<in> fst ` set (bucket_of Bonds (categorize_assets ps))
          \<and> ticker (snd p) \<notin> fst ` set (bucket_of Stocks (categorize_assets ps))
          \<and> ticker (snd p) \<notin> fst ` set (bucket_of Etfs (categorize_assets ps))
          \<and> ticker (snd p) \<notin> fst ` set (bucket_of Others (categorize_assets ps)))
    \<and> (ps = xs @ p # ys \<and> ticker (snd p) \<notin> (\<lambda>q. ticker (snd q)) ` set ys \<longrightarrow>
          entry p \<in> set (bucket_of Bonds (categorize_assets ps)))"
proof (intro conjI impI)
  show "categorize_step p (bonds, stocks, etfs, others)
           = (AList.update (ticker (snd p)) \<lparr>name = name (snd p), quantity = quantity (snd p)\<rparr> bonds,
              stocks, etfs, others)"
    using assms by (cases p) (simp add: categorize_step_def Let_def)
next
  assume "p \<in> set ps"
  with assms show "ticker (snd p) \<in> fst ` set (bucket_of Bonds (categorize_assets ps))"
    by (simp add: keys_bucket keys_entries class_of_ru000)
next
  have other: "ticker (snd p) \<notin> fst ` set (bucket_of b (categorize_assets ps))" if "b \<noteq> Bonds" for b
  proof
    assume "ticker (snd p) \<in> fst ` set (bucket_of b (categorize_assets ps))"
    then obtain q where q: "class_of q = b" "ticker (snd q) = ticker (snd p)"
      by (auto simp: keys_bucket keys_entries)
    from q(2) assms have "class_of q = Bonds" by (simp add: class_of_ru000)
    with q(1) that show False by simp
  qed
  show "ticker (snd p) \<notin> fst ` set (bucket_of Stocks (categorize_assets ps))"
    and "ticker (snd p) \<notin> fst ` set (bucket_of Etfs (categorize_assets ps))"
    and "ticker (snd p) \<notin> fst ` set (bucket_of Others (categorize_assets ps))"
    by (simp_all only: other asset_class.distinct not_False_eq_True)
next
  assume a: "ps = xs @ p # ys \<and> ticker (snd p) \<notin> (\<lambda>q. ticker (snd q)) ` set ys"
  then have nin: "ticker (snd p) \<notin> (\<lambda>q. ticker (snd q)) ` set ys" by (rule conjunct2)
  have "\<forall>q \<in> set ys. ticker (snd q) \<noteq> ticker (snd p)"
  proof
    fix q
    assume "q \<in> set ys"
    then have img: "ticker (snd q) \<in> (\<lambda>q. ticker (snd q)) ` set ys" by (rule imageI)
    show "ticker (snd q) \<noteq> ticker (snd p)"
    proof
      assume "ticker (snd q) = ticker (snd p)"
      with img have "ticker (snd p) \<in> (\<lambda>q. ticker (snd q)) ` set ys" by simp
      with nin show False by simp
    qed
  qed
  then have "\<forall>q \<in> set ys. ticker (snd q) = ticker (snd p) \<longrightarrow> class_of q \<noteq> class_of p"
    by simp
  then have "entry p \<in> set (bucket_of (class_of p) (categorize_assets (xs @ p # ys)))"
    by (rule entry_kept)
  with a assms show "entry p \<in> set (bucket_of Bonds (categorize_assets ps))"
    by (simp add: class_of_ru000)
qed

text \<open>The government bond of the two-position example.\<close>

theorem ru000_ticker_goes_to_bonds_witness:
  "startswith (ticker (snd ofz_position)) (ascii ''RU000'')
   \<and> ofz_position \<in> set scenario_positions
   \<and> scenario_positions = [sber_position] @ ofz_position # []
   \<and> ascii ''RU000A1B2C3'' \<in> fst ` set (bucket_of Bonds (categorize_assets scenario_positions))
   \<and> ascii ''RU000A1B2C3'' \<notin> fst ` set (bucket_of Stocks (categorize_assets scenario_positions))
   \<and> entry ofz_position \<in> set (bucket_of Bonds (categorize_assets scenario_positions))"
proof -
  have pre: "startswith (ticker (snd ofz_position)) (ascii ''RU000'')"
    by (simp add: ofz_position_def string_eval)
  have mem: "ofz_position \<in> set scenario_positions"
    and ps: "scenario_positions = [sber_position] @ ofz_position # []"
    by (simp_all add: scenario_positions_def)
  have t: "ticker (snd ofz_position) = ascii ''RU000A1B2C3''"
    by (simp add: ofz_position_def)
  note th = ru000_ticker_goes_to_bonds
              [OF pre, of "[]" "[]" "[]" "[]" scenario_positions "[sber_position]" "[]"]
  from mem have keys:
    "ticker (snd ofz_position) \<in> fst ` set (bucket_of Bonds (categorize_assets scenario_positions))
     \<and> ticker (snd ofz_position) \<notin> fst ` set (bucket_of Stocks (categorize_assets scenario_positions))
     \<and> ticker (snd ofz_position) \<notin> fst ` set (bucket_of Etfs (categorize_assets scenario_positions))
     \<and> ticker (snd ofz_position) \<notin> fst ` set (bucket_of Others (categorize_assets scenario_positions))"
    by (rule th [THEN conjunct2, THEN conjunct1, rule_format])
  have k1: "ascii ''RU000A1B2C3'' \<in> fst ` set (bucket_of Bonds (categorize_assets scenario_positions))"
    by (rule keys [unfolded t, THEN conjunct1])
  have k2: "ascii ''RU000A1B2C3'' \<notin> fst ` set (bucket_of Stocks (categorize_assets scenario_positions))"
    by (rule keys [unfolded t, THEN conjunct2, THEN conjunct1])
  have kept: "entry ofz_position \<in> set (bucket_of Bonds (categorize_assets scenario_positions))"
    by (rule th [THEN conjunct2, THEN conjunct2, rule_format]) (simp add: ps)
  show ?thesis by (intro conjI pre mem ps k1 k2 kept)
qed

section \<open>Properties of the reporter\<close>

text \<open>
  Printing extends the console and leaves the log alone; the reporter as a whole extends
  the console by the lines of the report.
\<close>

lemma stdout_print [simp]: "stdout (print s io) = stdout io @ [s]"
  by (simp add: print_def)

lemma log_print [simp]: "log (print s io) = log io"
  by (simp add: print_def)

lemma print_eq: "print s io = io\<lparr>stdout := stdout io @ [s]\<rparr>"
  by (simp add: print_def)

lemma fold_print:
  "fold (\<lambda>(tick, data). print (f tick data)) xs io
     = io\<lparr>stdout := stdout io @ map (\<lambda>(tick, data). f tick data) xs\<rparr>"
proof (induction xs arbitrary: io)
  case Nil
  show ?case by simp
next
  case (Cons x xs)
  show ?case by (cases x) (simp add: Cons.IH; simp add: print_def)
qed

lemma print_section_eq:
  "print_section header b io = io\<lparr>stdout := stdout io @ section_lines header b\<rparr>"
  by (simp add: print_section_def section_lines_def rows_def Let_def fold_print print_eq)

lemma display_eq:
  "display_portfolio_composition ps io = io\<lparr>stdout := stdout io @ report_lines ps\<rparr>"
proof (cases "ps = []")
  case True
  then show ?thesis
    by (simp add: display_portfolio_composition_def report_lines_def print_eq)
next
  case False
  obtain bonds stocks etfs others where bs: "categorize_assets ps = (bonds, stocks, etfs, others)"
    by (cases "categorize_assets ps") auto
  show ?thesis using False
    by (simp add: display_portfolio_composition_def report_lines_def totals_lines_def bs Let_def
          print_section_eq print_eq)
qed

text \<open>Sorting with \<open>reverse=True\<close> sorts in descending order and is stable.\<close>

lemma sorted_reverse_descending:
  "sorted_wrt (\<lambda>x y. key y \<le> key x) (sorted_reverse key xs)"
proof -
  have "sorted (map key (sort_key key (rev xs)))" by (rule sorted_sort_key)
  then have "sorted_wrt (\<lambda>x y. key x \<le> key y) (sort_key key (rev xs))"
    by (simp add: sorted_map)
  then show ?thesis by (simp add: sorted_reverse_def sorted_wrt_rev)
qed

lemma sorted_reverse_stable:
  "filter (\<lambda>x. key x = k) (sorted_reverse key xs) = filter (\<lambda>x. key x = k) xs"
proof -
  have "filter (\<lambda>x. key x = k) (sorted_reverse key xs)
          = rev (filter (\<lambda>x. key x = k) (sort_key key (rev xs)))"
    by (simp add: sorted_reverse_def rev_filter)
  also have "\<dots> = rev (filter (\<lambda>x. key x = k) (rev xs))"
    by (simp only: sort_key_stable)
  also have "\<dots> = filter (\<lambda>x. key x = k) xs"
    by (simp add: rev_filter)
  finally show ?thesis .
qed

lemma set_sorted_reverse: "set (sorted_reverse key xs) = set xs"
  by (simp add: sorted_reverse_def)

lemma length_sorted_reverse: "length (sorted_reverse key xs) = length xs"
  by (simp add: sorted_reverse_def)


text \<open>
  The order of the keys of a bucket, and a bucket whose positions have different tickers.
\<close>

lemma filter_removeAll: "\<not> P k \<Longrightarrow> filter P (removeAll k xs) = filter P xs"
  by (induction xs) auto

lemma filter_not_in_snoc:
  "filter (\<lambda>x. x \<notin> set (ks @ [k])) xs = filter (\<lambda>x. x \<notin> set ks) (removeAll k xs)"
  by (induction xs) auto

lemma keys_assign:
  "map fst (assign e al)
     = (if fst e \<in> set (map fst al) then map fst al else map fst al @ [fst e])"
  by (simp add: assign_def update_keys)

lemma keys_fold_assign_order:
  "map fst (fold assign es al)
     = map fst al @ filter (\<lambda>k. k \<notin> set (map fst al)) (first_seen (map fst es))"
proof (induction es arbitrary: al)
  case Nil
  show ?case by simp
next
  case (Cons e es)
  show ?case
  proof (cases "fst e \<in> set (map fst al)")
    case True
    then have k: "map fst (assign e al) = map fst al" by (simp only: keys_assign if_True)
    have "map fst (fold assign (e # es) al)
            = map fst al @ filter (\<lambda>k. k \<notin> set (map fst al)) (first_seen (map fst es))"
      by (simp add: Cons.IH k)
    also have "filter (\<lambda>k. k \<notin> set (map fst al)) (first_seen (map fst es))
                 = filter (\<lambda>k. k \<notin> set (map fst al)) (removeAll (fst e) (first_seen (map fst es)))"
      using True by (simp add: filter_removeAll)
    finally show ?thesis using True by simp
  next
    case False
    then have k: "map fst (assign e al) = map fst al @ [fst e]"
      by (simp only: keys_assign if_False)
    have "map fst (fold assign (e # es) al)
            = (map fst al @ [fst e])
              @ filter (\<lambda>k. k \<notin> set (map fst al @ [fst e])) (first_seen (map fst es))"
      by (simp add: Cons.IH k)
    also have "filter (\<lambda>k. k \<notin> set (map fst al @ [fst e])) (first_seen (map fst es))
                 = filter (\<lambda>k. k \<notin> set (map fst al)) (removeAll (fst e) (first_seen (map fst es)))"
      by (rule filter_not_in_snoc)
    finally show ?thesis using False by simp
  qed
qed

lemma bucket_keys_order:
  "map fst (bucket_of b (categorize_assets ps)) = first_seen (map fst (entries b ps))"
  by (simp add: bucket_of_categorize keys_fold_assign_order)

lemma update_new_key: "k \<notin> fst ` set al \<Longrightarrow> AList.update k v al = al @ [(k, v)]"
  by (induction al) auto

lemma fold_assign_distinct:
  "distinct (map fst es) \<Longrightarrow> fst ` set es \<inter> fst ` set al = {} \<Longrightarrow>
     fold assign es al = al @ es"
proof (induction es arbitrary: al)
  case Nil
  show ?case by simp
next
  case (Cons e es)
  from Cons.prems(2) have new: "fst e \<notin> fst ` set al" by auto
  then have a: "assign e al = al @ [e]" by (simp add: assign_def update_new_key)
  have "distinct (map fst es)" using Cons.prems(1) by simp
  moreover have "fst ` set es \<inter> fst ` set (al @ [e]) = {}"
    using Cons.prems by auto
  ultimately have "fold assign es (al @ [e]) = (al @ [e]) @ es" by (rule Cons.IH)
  then show ?case by (simp add: a)
qed

lemma bucket_no_clash:
  "distinct (map fst (entries b ps)) \<Longrightarrow> bucket_of b (categorize_assets ps) = entries b ps"
  using fold_assign_distinct [of "entries b ps" "[]"] by (simp add: bucket_of_categorize)


text \<open>
  C7, as amended. The report of a dictionary of positions that is not empty is the four
  header lines, the sections of the four buckets in their fixed order, a rule and the
  totals; the section of a bucket that is not empty is its header, a rule and one line for
  each of its rows. In every bucket the rows are in non-increasing order of quantity, and
  rows of equal quantity are in the order of the bucket, the sort being stable. The keys
  of the bucket are the tickers of its positions in the order in which each ticker occurs
  first in the iteration, and the entry under a ticker is the one assigned last. So when
  no two positions of the bucket share a ticker, rows of equal quantity are in the order
  of the iteration over the positions.
\<close>

theorem report_rows_sorted_by_quantity:
  "(ps \<noteq> [] \<longrightarrow>
      stdout (display_portfolio_composition ps io)
        = stdout io @ [msg_title, replicate 80 61, msg_format, replicate 80 61]
            @ section_lines hdr_bonds (bucket_of Bonds (categorize_assets ps))
            @ section_lines hdr_stocks (bucket_of Stocks (categorize_assets ps))
            @ section_lines hdr_etfs (bucket_of Etfs (categorize_assets ps))
            @ section_lines hdr_others (bucket_of Others (categorize_assets ps))
            @ [[10] @ replicate 80 61]
            @ totals_lines ps (categorize_assets ps))
   \<and> (bucket_of b (categorize_assets ps) \<noteq> [] \<longrightarrow>
        section_lines header (bucket_of b (categorize_assets ps))
          = [header, replicate 80 45]
            @ map (\<lambda>(tick, data). holding_line tick data)
                (rows (bucket_of b (categorize_assets ps))))
   \<and> sorted_wrt (\<lambda>x y. quantity (snd y) \<le> quantity (snd x))
        (rows (bucket_of b (categorize_assets ps)))
   \<and> filter (\<lambda>x. quantity (snd x) = q) (rows (bucket_of b (categorize_assets ps)))
       = filter (\<lambda>x. quantity (snd x) = q) (bucket_of b (categorize_assets ps))
   \<and> map fst (bucket_of b (categorize_assets ps)) = first_seen (map fst (entries b ps))
   \<and> map_of (bucket_of b (categorize_assets ps)) = map_of (rev (entries b ps))
   \<and> (distinct (map fst (entries b ps)) \<longrightarrow>
        filter (\<lambda>x. quantity (snd x) = q) (rows (bucket_of b (categorize_assets ps)))
          = filter (\<lambda>x. quantity (snd x) = q) (entries b ps))"
proof (intro conjI impI)
  assume "ps \<noteq> []"
  then show "stdout (display_portfolio_composition ps io)
        = stdout io @ [msg_title, replicate 80 61, msg_format, replicate 80 61]
            @ section_lines hdr_bonds (bucket_of Bonds (categorize_assets ps))
            @ section_lines hdr_stocks (bucket_of Stocks (categorize_assets ps))
            @ section_lines hdr_etfs (bucket_of Etfs (categorize_assets ps))
            @ section_lines hdr_others (bucket_of Others (categorize_assets ps))
            @ [[10] @ replicate 80 61]
            @ totals_lines ps (categorize_assets ps)"
    by (simp add: display_eq report_lines_def)
next
  assume "bucket_of b (categorize_assets ps) \<noteq> []"
  then show "section_lines header (bucket_of b (categorize_assets ps))
          = [header, replicate 80 45]
            @ map (\<lambda>(tick, data). holding_line tick data)
                (rows (bucket_of b (categorize_assets ps)))"
    by (simp add: section_lines_def)
next
  show "sorted_wrt (\<lambda>x y. quantity (snd y) \<le> quantity (snd x))
        (rows (bucket_of b (categorize_assets ps)))"
    unfolding rows_def by (rule sorted_reverse_descending)
next
  show stable: "filter (\<lambda>x. quantity (snd x) = q) (rows (bucket_of b (categorize_assets ps)))
       = filter (\<lambda>x. quantity (snd x) = q) (bucket_of b (categorize_assets ps))"
    unfolding rows_def by (rule sorted_reverse_stable)
  assume "distinct (map fst (entries b ps))"
  then have "bucket_of b (categorize_assets ps) = entries b ps" by (rule bucket_no_clash)
  with stable
  show "filter (\<lambda>x. quantity (snd x) = q) (rows (bucket_of b (categorize_assets ps)))
          = filter (\<lambda>x. quantity (snd x) = q) (entries b ps)"
    by simp
next
  show "map fst (bucket_of b (categorize_assets ps)) = first_seen (map fst (entries b ps))"
    by (rule bucket_keys_order)
next
  show "map_of (bucket_of b (categorize_assets ps)) = map_of (rev (entries b ps))"
    by (simp add: bucket_of_categorize map_of_fold_assign)
qed

lemma categorize_swap:
  "categorize_assets swap_positions
     = ([], [(ascii ''XXX'', \<lparr>name = ascii ''Third'', quantity = 5\<rparr>),
             (ascii ''YYY'', \<lparr>name = ascii ''Second'', quantity = 5\<rparr>)], [], [])"
  by (simp add: swap_positions_def classify_eval)

lemma categorize_tie:
  "categorize_assets tie_positions
     = ([], [(ascii ''AAA'', \<lparr>name = ascii ''A'', quantity = 5\<rparr>),
             (ascii ''BBB'', \<lparr>name = ascii ''B'', quantity = 7\<rparr>),
             (ascii ''CCC'', \<lparr>name = ascii ''C'', quantity = 5\<rparr>)], [], [])"
  by (simp add: tie_positions_def classify_eval)

lemmas report_eval =
  section_lines_def totals_lines_def rows_def sorted_reverse_def sort_key_def bucket_total_def
  holding_line_def format_eval ascii_Nil ascii_Cons

text \<open>
  C7, as stated, fails: the second and the third position have quantity 5, and the row of
  the third is printed before the row of the second, because the third is stored under the
  ticker of the first.
\<close>

theorem later_tie_printed_before_earlier:
  "stdout (display_portfolio_composition swap_positions empty_io)
     = [msg_title, replicate 80 61, msg_format, replicate 80 61,
        hdr_stocks, replicate 80 45,
        ascii ''$XXX; Third; 5'', ascii ''$YYY; Second; 5'',
        [10] @ replicate 80 61,
        lbl_bonds @ ascii ''0'', lbl_stocks @ ascii ''10'', lbl_etfs @ ascii ''0'',
        lbl_others @ ascii ''0'', lbl_assets @ ascii ''3'', lbl_total @ ascii ''10'']"
proof -
  have ne: "swap_positions \<noteq> []" and l: "length swap_positions = 3"
    by (simp_all add: swap_positions_def)
  have "report_lines swap_positions
     = [msg_title, replicate 80 61, msg_format, replicate 80 61,
        hdr_stocks, replicate 80 45,
        ascii ''$XXX; Third; 5'', ascii ''$YYY; Second; 5'',
        [10] @ replicate 80 61,
        lbl_bonds @ ascii ''0'', lbl_stocks @ ascii ''10'', lbl_etfs @ ascii ''0'',
        lbl_others @ ascii ''0'', lbl_assets @ ascii ''3'', lbl_total @ ascii ''10'']"
    using ne by (simp add: report_lines_def categorize_swap l report_eval)
  then show ?thesis by (simp add: display_eq empty_io_def)
qed

text \<open>Quantities 5, 7, 5 under three tickers: the 7 first, then the two 5 in their order.\<close>

theorem report_rows_sorted_by_quantity_witness:
  "tie_positions \<noteq> []
   \<and> bucket_of Stocks (categorize_assets tie_positions) \<noteq> []
   \<and> distinct (map fst (entries Stocks tie_positions))
   \<and> stdout (display_portfolio_composition tie_positions empty_io)
       = [msg_title, replicate 80 61, msg_format, replicate 80 61,
          hdr_stocks, replicate 80 45,
          ascii ''$BBB; B; 7'', ascii ''$AAA; A; 5'', ascii ''$CCC; C; 5'',
          [10] @ replicate 80 61,
          lbl_bonds @ ascii ''0'', lbl_stocks @ ascii ''17'', lbl_etfs @ ascii ''0'',
          lbl_others @ ascii ''0'', lbl_assets @ ascii ''3'', lbl_total @ ascii ''17'']
   \<and> filter (\<lambda>x. quantity (snd x) = 5) (rows (bucket_of Stocks (categorize_assets tie_positions)))
       = [(ascii ''AAA'', \<lparr>name = ascii ''A'', quantity = 5\<rparr>),
          (ascii ''CCC'', \<lparr>name = ascii ''C'', quantity = 5\<rparr>)]"
proof -
  note th = report_rows_sorted_by_quantity [of tie_positions empty_io Stocks hdr_stocks 5]
  have ne: "tie_positions \<noteq> []" and l: "length tie_positions = 3"
    by (simp_all add: tie_positions_def)
  have bne: "bucket_of Stocks (categorize_assets tie_positions) \<noteq> []"
    by (simp add: categorize_tie)
  have es: "entries Stocks tie_positions
              = [(ascii ''AAA'', \<lparr>name = ascii ''A'', quantity = 5\<rparr>),
                 (ascii ''BBB'', \<lparr>name = ascii ''B'', quantity = 7\<rparr>),
                 (ascii ''CCC'', \<lparr>name = ascii ''C'', quantity = 5\<rparr>)]"
    by (simp add: entries_def entry_def tie_positions_def classify_eval)
  have d: "distinct (map fst (entries Stocks tie_positions))"
    by (simp add: es ascii_Nil ascii_Cons)
  have "stdout (display_portfolio_composition tie_positions empty_io)
        = stdout empty_io @ [msg_title, replicate 80 61, msg_format, replicate 80 61]
            @ section_lines hdr_bonds (bucket_of Bonds (categorize_assets tie_positions))
            @ section_lines hdr_stocks (bucket_of Stocks (categorize_assets tie_positions))
            @ section_lines hdr_etfs (bucket_of Etfs (categorize_assets tie_positions))
            @ section_lines hdr_others (bucket_of Others (categorize_assets tie_positions))
            @ [[10] @ replicate 80 61]
            @ totals_lines tie_positions (categorize_assets tie_positions)"
    using ne by (rule th [THEN conjunct1, THEN mp])
  then have out: "stdout (display_portfolio_composition tie_positions empty_io)
       = [msg_title, replicate 80 61, msg_format, replicate 80 61,
          hdr_stocks, replicate 80 45,
          ascii ''$BBB; B; 7'', ascii ''$AAA; A; 5'', ascii ''$CCC; C; 5'',
          [10] @ replicate 80 61,
          lbl_bonds @ ascii ''0'', lbl_stocks @ ascii ''17'', lbl_etfs @ ascii ''0'',
          lbl_others @ ascii ''0'', lbl_assets @ ascii ''3'', lbl_total @ ascii ''17'']"
    by (simp add: categorize_tie l empty_io_def report_eval)
  have "filter (\<lambda>x. quantity (snd x) = 5) (rows (bucket_of Stocks (categorize_assets tie_positions)))
          = filter (\<lambda>x. quantity (snd x) = 5) (entries Stocks tie_positions)"
    using d
    by (rule th [THEN conjunct2, THEN conjunct2, THEN conjunct2, THEN conjunct2, THEN conjunct2,
                 THEN conjunct2, THEN mp])
  then have ties: "filter (\<lambda>x. quantity (snd x) = 5)
                     (rows (bucket_of Stocks (categorize_assets tie_positions)))
       = [(ascii ''AAA'', \<lparr>name = ascii ''A'', quantity = 5\<rparr>),
          (ascii ''CCC'', \<lparr>name = ascii ''C'', quantity = 5\<rparr>)]"
    by (simp add: es)
  show ?thesis by (intro conjI ne bne d out ties)
qed

section \<open>Totals of the report\<close>











section \<open>Properties of the fetcher and of the main function\<close>

text \<open>
  Every assignment of the loop stores a quantity that passed the test \<open>units > 0\<close>,
  and a record that fails the test changes nothing.
\<close>

lemma set_update_subset: "set (AList.update k v al) \<subseteq> insert (k, v) (set al)"
  by (induction al) auto

lemma fst_fetch_step:
  "fst (fetch_step client position (positions, io)) =
     (if 0 < units (position_quantity position) then
        (case get_instrument_by client 1 (figi position) of
           Inr (Some instr) \<Rightarrow>
             AList.update (figi position)
               \<lparr>name = instrument_name instr, quantity = units (position_quantity position),
                ticker = instrument_ticker instr\<rparr> positions
         | Inr None \<Rightarrow> positions
         | Inl e \<Rightarrow>
             AList.update (figi position)
               \<lparr>name = lit_unknown, quantity = units (position_quantity position),
                ticker = take 8 (figi position)\<rparr> positions)
      else positions)"
  by (simp add: fetch_step_def Let_def split: sum.splits option.splits)

lemma update_positive:
  fixes d :: position
  assumes "\<forall>p \<in> set positions. 0 < quantity (snd p)" and "0 < quantity d"
  shows "\<forall>p \<in> set (AList.update k d positions). 0 < quantity (snd p)"
proof
  fix p
  assume "p \<in> set (AList.update k d positions)"
  with set_update_subset [of k d positions] have "p = (k, d) \<or> p \<in> set positions" by auto
  with assms show "0 < quantity (snd p)" by auto
qed

lemma fetch_step_positive:
  assumes "\<forall>p \<in> set (fst st). 0 < quantity (snd p)"
  shows "\<forall>p \<in> set (fst (fetch_step client position st)). 0 < quantity (snd p)"
proof (cases st)
  case (Pair positions io)
  with assms have pos: "\<forall>p \<in> set positions. 0 < quantity (snd p)" by simp
  show ?thesis
  proof (cases "0 < units (position_quantity position)")
    case False
    with pos show ?thesis by (simp add: Pair fst_fetch_step)
  next
    case True
    show ?thesis
    proof (cases "get_instrument_by client 1 (figi position)")
      case (Inl e)
      have "\<forall>p \<in> set (AList.update (figi position)
               \<lparr>name = lit_unknown, quantity = units (position_quantity position),
                ticker = take 8 (figi position)\<rparr> positions). 0 < quantity (snd p)"
        using pos by (rule update_positive) (simp add: True)
      then show ?thesis by (simp add: Pair fst_fetch_step True Inl)
    next
      case (Inr answer)
      show ?thesis
      proof (cases answer)
        case None
        with pos show ?thesis by (simp add: Pair fst_fetch_step Inr)
      next
        case (Some instr)
        have "\<forall>p \<in> set (AList.update (figi position)
               \<lparr>name = instrument_name instr, quantity = units (position_quantity position),
                ticker = instrument_ticker instr\<rparr> positions). 0 < quantity (snd p)"
          using pos by (rule update_positive) (simp add: True)
        then show ?thesis by (simp add: Pair fst_fetch_step True Inr Some)
      qed
    qed
  qed
qed

lemma fold_fetch_step_positive:
  "\<forall>p \<in> set (fst st). 0 < quantity (snd p) \<Longrightarrow>
     \<forall>p \<in> set (fst (fold (fetch_step client) portfolio st)). 0 < quantity (snd p)"
proof (induction portfolio arbitrary: st)
  case Nil
  then show ?case by simp
next
  case (Cons position portfolio)
  from Cons.prems have "\<forall>p \<in> set (fst (fetch_step client position st)). 0 < quantity (snd p)"
    by (rule fetch_step_positive)
  then show ?case by (simp add: Cons.IH)
qed

lemma fetch_step_discards:
  "units (position_quantity position) \<le> 0 \<Longrightarrow> fetch_step client position st = st"
  by (cases st) (simp add: fetch_step_def)

lemma fold_fetch_step_filter:
  "fold (fetch_step client) (filter (\<lambda>position. 0 < units (position_quantity position)) portfolio) st
     = fold (fetch_step client) portfolio st"
  by (induction portfolio arbitrary: st) (simp_all add: fetch_step_discards)

lemma fetched_positive:
  assumes "get_portfolio_composition client io = (Some positions, io')"
  shows "\<forall>p \<in> set positions. 0 < quantity (snd p)"
proof (cases "get_accounts client")
  case (Inl e)
  with assms show ?thesis
    by (simp add: get_portfolio_composition_def portfolio_failed_def Let_def)
next
  case (Inr accounts)
  show ?thesis
  proof (cases "find (\<lambda>acc. account_type acc = 1) accounts")
    case None
    with assms Inr show ?thesis by (simp add: get_portfolio_composition_def)
  next
    case (Some acc)
    show ?thesis
    proof (cases "get_portfolio client (account_id acc)")
      case (Inl e)
      with assms Inr Some show ?thesis
        by (simp add: get_portfolio_composition_def portfolio_failed_def Let_def)
    next
      case portfolio: (Inr portfolio)
      let ?st = "([], print (msg_using_account @ account_id acc) io)"
      have "positions = fst (fold (fetch_step client) portfolio ?st)"
        using assms Inr Some portfolio
        by (simp add: get_portfolio_composition_def Let_def split: prod.splits)
      moreover have "\<forall>p \<in> set (fst (fold (fetch_step client) portfolio ?st)). 0 < quantity (snd p)"
        by (rule fold_fetch_step_positive) simp
      ultimately show ?thesis by simp
    qed
  qed
qed


text \<open>
  C6. Every position in the dictionary returned by the fetcher has a quantity greater
  than zero; a record whose integer units are zero or negative leaves the dictionary, the
  console and the log as they are; and the loop gives the same result on the snapshot and
  on the snapshot without these records.
\<close>

theorem fetcher_keeps_only_positive_quantities:
  "(get_portfolio_composition client io = (Some positions, io')
      \<longrightarrow> (\<forall>p \<in> set positions. 0 < quantity (snd p)))
   \<and> (units (position_quantity position) \<le> 0 \<longrightarrow> fetch_step client position st = st)
   \<and> fold (fetch_step client)
         (filter (\<lambda>position. 0 < units (position_quantity position)) portfolio) st
       = fold (fetch_step client) portfolio st"
proof (intro conjI impI)
  assume "get_portfolio_composition client io = (Some positions, io')"
  then show "\<forall>p \<in> set positions. 0 < quantity (snd p)" by (rule fetched_positive)
next
  assume "units (position_quantity position) \<le> 0"
  then show "fetch_step client position st = st" by (rule fetch_step_discards)
next
  show "fold (fetch_step client)
         (filter (\<lambda>position. 0 < units (position_quantity position)) portfolio) st
       = fold (fetch_step client) portfolio st"
    by (rule fold_fetch_step_filter)
qed

lemmas fetch_eval =
  get_portfolio_composition_def fetch_step_def portfolio_failed_def Let_def
  print_def logging_error_def broker_account_def empty_io_def

lemma fetch_mixed:
  "get_portfolio_composition mixed_client empty_io
     = (Some [(ascii ''BBG004730N88'',
               \<lparr>name = ascii ''Sberbank'', quantity = 10, ticker = ascii ''SBER''\<rparr>)],
        \<lparr>stdout = [msg_using_account @ ascii ''2000123456''], log = []\<rparr>)"
  by (simp add: mixed_client_def fetch_eval)

text \<open>Quantities ten, zero and minus five: only the first position is returned.\<close>

theorem fetcher_keeps_only_positive_quantities_witness:
  "get_portfolio_composition mixed_client empty_io
     = (Some [(ascii ''BBG004730N88'',
               \<lparr>name = ascii ''Sberbank'', quantity = 10, ticker = ascii ''SBER''\<rparr>)],
        \<lparr>stdout = [msg_using_account @ ascii ''2000123456''], log = []\<rparr>)
   \<and> (0::int) < 10
   \<and> fetch_step mixed_client
        \<lparr>figi = ascii ''BBG004731354'', position_quantity = \<lparr>units = - 5, nano = 0\<rparr>\<rparr>
        ([], empty_io)
      = ([], empty_io)"
proof -
  note th = fetcher_keeps_only_positive_quantities
    [of mixed_client empty_io
        "[(ascii ''BBG004730N88'',
           \<lparr>name = ascii ''Sberbank'', quantity = 10, ticker = ascii ''SBER''\<rparr>)]"
        "\<lparr>stdout = [msg_using_account @ ascii ''2000123456''], log = []\<rparr>"
        "\<lparr>figi = ascii ''BBG004731354'', position_quantity = \<lparr>units = - 5, nano = 0\<rparr>\<rparr>"
        "([], empty_io)"]
  have "\<forall>p \<in> set [(ascii ''BBG004730N88'',
           \<lparr>name = ascii ''Sberbank'', quantity = 10, ticker = ascii ''SBER''\<rparr>)].
          0 < quantity (snd p)"
    using fetch_mixed by (rule th [THEN conjunct1, THEN mp])
  then have pos: "(0::int) < 10" by simp
  have "fetch_step mixed_client
        \<lparr>figi = ascii ''BBG004731354'', position_quantity = \<lparr>units = - 5, nano = 0\<rparr>\<rparr>
        ([], empty_io)
      = ([], empty_io)"
    by (rule th [THEN conjunct2, THEN conjunct1, THEN mp]) simp
  with fetch_mixed pos show ?thesis by (intro conjI)
qed

text \<open>
  C2. A position of quantity ten whose lookup returns a response without an instrument is
  not in the dictionary returned by the fetcher: the test \<open>if instrument.instrument\<close>
  has no \<open>else\<close> branch. When the lookup raises instead, the same position is kept
  with the name for an unknown instrument and the first eight characters of its identifier
  as ticker.
\<close>

theorem missing_instrument_drops_position:
  "get_portfolio_composition (lookup_client (Inr None)) empty_io
     = (Some [], \<lparr>stdout = [msg_using_account @ ascii ''2000123456''], log = []\<rparr>)
   \<and> fst (get_portfolio_composition
             (lookup_client (Inl (Exception (ascii ''NOT_FOUND'')))) empty_io)
       = Some [(ascii ''FIGI00001'',
                \<lparr>name = lit_unknown, quantity = 10, ticker = ascii ''FIGI0000''\<rparr>)]"
  by (simp add: lookup_client_def fetch_eval ascii_Nil ascii_Cons)

text \<open>A failure of the account listing or of the portfolio retrieval.\<close>

lemma fetch_failure_result:
  assumes "fetch_failure client = Some e"
  shows "get_portfolio_composition client io
           = (None, io\<lparr>stdout := stdout io @ account_line client @ [msg_portfolio_error @ str_exn e],
                        log := log io @ [log_portfolio_error @ str_exn e]\<rparr>)"
proof (cases "get_accounts client")
  case (Inl e')
  with assms have "e' = e" by (simp add: fetch_failure_def)
  with Inl show ?thesis
    by (simp add: get_portfolio_composition_def portfolio_failed_def account_line_def Let_def
          print_def logging_error_def)
next
  case (Inr accounts)
  show ?thesis
  proof (cases "find (\<lambda>acc. account_type acc = 1) accounts")
    case None
    with assms Inr show ?thesis by (simp add: fetch_failure_def)
  next
    case (Some acc)
    show ?thesis
    proof (cases "get_portfolio client (account_id acc)")
      case (Inl e')
      with assms Inr Some have "e' = e" by (simp add: fetch_failure_def)
      with Inl Inr Some show ?thesis
        by (simp add: get_portfolio_composition_def portfolio_failed_def account_line_def Let_def
              print_def logging_error_def)
    next
      case portfolio: (Inr portfolio)
      with assms Inr Some show ?thesis by (simp add: fetch_failure_def)
    qed
  qed
qed

text \<open>
  C9. When the account listing or the portfolio retrieval raises, the fetcher returns
  \<open>None\<close>, logs the error and prints it; and the main function, given a token and a
  session, then prints only its own three lines, the account line if an account had been
  selected, the error, and the line that the data could not be obtained: no line of the
  report is printed.
\<close>

theorem fetch_failure_stops_without_report:
  assumes "fetch_failure client = Some e"
  shows "fst (get_portfolio_composition client io) = None
    \<and> stdout (snd (get_portfolio_composition client io))
        = stdout io @ account_line client @ [msg_portfolio_error @ str_exn e]
    \<and> log (snd (get_portfolio_composition client io))
        = log io @ [log_portfolio_error @ str_exn e]
    \<and> (token \<noteq> [] \<and> Client token = Inr client \<longrightarrow>
          stdout (main (Some token) Client io)
            = stdout io
              @ [msg_start, msg_token_found @ take 10 token @ ascii ''...'', msg_connected]
              @ account_line client
              @ [msg_portfolio_error @ str_exn e, msg_fetch_failed]
          \<and> log (main (Some token) Client io) = log io @ [log_portfolio_error @ str_exn e])"
proof (intro conjI impI)
  show "fst (get_portfolio_composition client io) = None"
    and "stdout (snd (get_portfolio_composition client io))
        = stdout io @ account_line client @ [msg_portfolio_error @ str_exn e]"
    and "log (snd (get_portfolio_composition client io))
        = log io @ [log_portfolio_error @ str_exn e]"
    by (simp_all add: fetch_failure_result [OF assms])
next
  assume a: "token \<noteq> [] \<and> Client token = Inr client"
  then have m: "main (Some token) Client io
      = print msg_fetch_failed
          (snd (get_portfolio_composition client
             (print msg_connected
               (print (msg_token_found @ take 10 token @ ascii ''...'') (print msg_start io)))))"
    by (simp add: main_def Let_def fetch_failure_result [OF assms])
  show "stdout (main (Some token) Client io)
            = stdout io
              @ [msg_start, msg_token_found @ take 10 token @ ascii ''...'', msg_connected]
              @ account_line client
              @ [msg_portfolio_error @ str_exn e, msg_fetch_failed]"
    by (simp add: m fetch_failure_result [OF assms])
  show "log (main (Some token) Client io) = log io @ [log_portfolio_error @ str_exn e]"
    by (simp add: m fetch_failure_result [OF assms])
qed

lemma failing_client_fails: "fetch_failure failing_client = Some (Exception (ascii ''UNAVAILABLE''))"
  by (simp add: fetch_failure_def failing_client_def broker_account_def)

lemma failing_client_account:
  "account_line failing_client = [msg_using_account @ ascii ''2000123456'']"
  by (simp add: account_line_def failing_client_def broker_account_def)

text \<open>A client whose portfolio retrieval raises: the whole console and log of the run.\<close>

theorem fetch_failure_stops_without_report_witness:
  "fetch_failure failing_client = Some (Exception (ascii ''UNAVAILABLE''))
   \<and> ascii ''t.0123456789abcdef'' \<noteq> []
   \<and> fst (get_portfolio_composition failing_client empty_io) = None
   \<and> main (Some (ascii ''t.0123456789abcdef'')) (\<lambda>token. Inr failing_client) empty_io
       = \<lparr>stdout = [msg_start, msg_token_found @ ascii ''t.01234567...'', msg_connected,
                    msg_using_account @ ascii ''2000123456'',
                    msg_portfolio_error @ ascii ''UNAVAILABLE'', msg_fetch_failed],
          log = [log_portfolio_error @ ascii ''UNAVAILABLE'']\<rparr>"
proof -
  note th = fetch_failure_stops_without_report
    [OF failing_client_fails, of empty_io "ascii ''t.0123456789abcdef''" "\<lambda>token. Inr failing_client"]
  have ne: "ascii ''t.0123456789abcdef'' \<noteq> []" by (simp add: ascii_Cons)
  have none: "fst (get_portfolio_composition failing_client empty_io) = None"
    by (rule th [THEN conjunct1])
  have "stdout (main (Some (ascii ''t.0123456789abcdef'')) (\<lambda>token. Inr failing_client) empty_io)
            = stdout empty_io
              @ [msg_start, msg_token_found @ take 10 (ascii ''t.0123456789abcdef'') @ ascii ''...'',
                 msg_connected]
              @ account_line failing_client
              @ [msg_portfolio_error @ str_exn (Exception (ascii ''UNAVAILABLE'')), msg_fetch_failed]
          \<and> log (main (Some (ascii ''t.0123456789abcdef'')) (\<lambda>token. Inr failing_client) empty_io)
            = log empty_io @ [log_portfolio_error @ str_exn (Exception (ascii ''UNAVAILABLE''))]"
    by (rule th [THEN conjunct2, THEN conjunct2, THEN conjunct2, THEN mp]) (simp add: ne)
  then have "main (Some (ascii ''t.0123456789abcdef'')) (\<lambda>token. Inr failing_client) empty_io
       = \<lparr>stdout = [msg_start, msg_token_found @ ascii ''t.01234567...'', msg_connected,
                    msg_using_account @ ascii ''2000123456'',
                    msg_portfolio_error @ ascii ''UNAVAILABLE'', msg_fetch_failed],
          log = [log_portfolio_error @ ascii ''UNAVAILABLE'']\<rparr>"
    by (cases "main (Some (ascii ''t.0123456789abcdef'')) (\<lambda>token. Inr failing_client) empty_io")
       (simp add: failing_client_account empty_io_def ascii_Nil ascii_Cons)
  with failing_client_fails ne none show ?thesis by (intro conjI)
qed

end
